theory Spec2Isabelle
  imports Complex_Main "HOL-Library.AList"
begin

section \<open>Python exceptions, values and calls to collaborators\<close>

text \<open>
  The gateway in \<^verbatim>\<open>hummingbot/remote_iface/mqtt.py\<close> delegates every piece of real work to
  collaborators (the application object, the bus node and its publishers, the logging
  formatter) and adds the control flow around them: which call is made, in which order, and
  which exceptions are caught. The model keeps exactly that control flow.

  An exception is a value. Its \<open>kind\<close> records the class as far as the \<^verbatim>\<open>except\<close> clauses of
  the source distinguish classes: \<^verbatim>\<open>except Exception\<close> catches every kind but
  \<open>NonException\<close> (an instance of \<^verbatim>\<open>BaseException\<close> that is not an \<^verbatim>\<open>Exception\<close>:
  \<^verbatim>\<open>KeyboardInterrupt\<close>, \<^verbatim>\<open>SystemExit\<close>, \<^verbatim>\<open>asyncio.CancelledError\<close>);
  \<^verbatim>\<open>except (TypeError, ValueError)\<close> catches those two kinds; \<^verbatim>\<open>except KeyError\<close> catches
  \<open>KeyError\<close>. \<open>OtherException\<close> is any other subclass of \<^verbatim>\<open>Exception\<close>. The selector
  \<open>str\<close> is what \<^verbatim>\<open>str(e)\<close> returns.
\<close>

datatype exc_kind =
  TypeError | ValueError | KeyError | EnvironmentError | OtherException | NonException

datatype py_exc = Exc (kind: exc_kind) (str: string)

definition is_Exception :: "py_exc \<Rightarrow> bool" where
  "is_Exception e = (kind e \<noteq> NonException)"

text \<open>
  A call to a collaborator takes the state of the world outside the gateway and returns
  either the exception it raised (\<open>Inl\<close>) or its result (\<open>Inr\<close>), together with the new
  state: a Python method may change state before it raises.
\<close>

type_synonym ('a, 's) call = "'s \<Rightarrow> (py_exc + 'a) \<times> 's"

text \<open>
  Python values that travel through the gateway untouched (request fields, configuration
  values, balance data, trade records, event fields). The only operation the source applies
  to such a value is \<^verbatim>\<open>int(...)\<close>, on an event's timestamp: on an \<^verbatim>\<open>int\<close> it is the identity,
  on a finite \<^verbatim>\<open>float\<close> it truncates towards zero, and any other object (\<^verbatim>\<open>None\<close>, a
  \<^verbatim>\<open>str\<close>, a \<^verbatim>\<open>Decimal\<close>, a NaN) is described by what \<^verbatim>\<open>int\<close> returns or raises on it.
\<close>

datatype pyval =
  PyInt int
| PyFloat real
| PyObj (int_of: "py_exc + int") (ident: string)

definition trunc :: "real \<Rightarrow> int" where
  "trunc x = (if 0 \<le> x then \<lfloor>x\<rfloor> else \<lceil>x\<rceil>)"

fun py_int :: "pyval \<Rightarrow> py_exc + int" where
  "py_int (PyInt n) = Inr n"
| "py_int (PyFloat x) = Inr (trunc x)"
| "py_int (PyObj r i) = r"

section \<open>Messages\<close>

text \<open>
  Modelled from the spec: the message classes of \<^verbatim>\<open>hummingbot.remote_iface.messages\<close>
  (\<^verbatim>\<open>MQTT_STATUS_CODE\<close>, the \<^verbatim>\<open>Request\<close> and \<^verbatim>\<open>Response\<close> classes of every command,
  \<^verbatim>\<open>EventMessage\<close>, \<^verbatim>\<open>LogMessage\<close>) are imported by the source but not part of it. Every
  response carries a status code (\<open>OK\<close> or \<open>ERROR\<close>) and a message string; a freshly
  constructed response has status \<open>OK\<close>, an empty message and empty payload fields
  (\<open>changes\<close> and \<open>trades\<close> the empty list, \<open>data\<close> unset, which is \<open>None\<close> here). The
  fields of \<^verbatim>\<open>EventMessage\<close> (\<^verbatim>\<open>timestamp\<close>, \<^verbatim>\<open>type\<close>, \<^verbatim>\<open>data\<close>) and of \<^verbatim>\<open>LogMessage\<close>
  (\<^verbatim>\<open>timestamp\<close>, \<^verbatim>\<open>msg\<close>, \<^verbatim>\<open>level_no\<close>, \<^verbatim>\<open>level_name\<close>, \<^verbatim>\<open>logger_name\<close>) carry a prefix
  here where the name is already a field of a response, and so do the fields \<^verbatim>\<open>asset\<close> and
  \<^verbatim>\<open>amount\<close> of the balance-paper request. The status request has no field the source
  reads and is the unit value.
\<close>

datatype mqtt_status_code = OK | ERROR

record response =
  status :: mqtt_status_code
  msg :: string

record config_response = response +
  changes :: "(string \<times> pyval) list"

record 'a data_response = response +
  data :: 'a

record history_response = response +
  trades :: "pyval list"

definition Response :: response where
  "Response = \<lparr>status = OK, msg = ''''\<rparr>"

definition ConfigResponse :: config_response where
  "ConfigResponse = \<lparr>status = OK, msg = '''', changes = []\<rparr>"

definition StatusResponse :: "string option data_response" where
  "StatusResponse = \<lparr>status = OK, msg = '''', data = None\<rparr>"

definition HistoryResponse :: history_response where
  "HistoryResponse = \<lparr>status = OK, msg = '''', trades = []\<rparr>"

definition BalanceResponse :: "pyval option data_response" where
  "BalanceResponse = \<lparr>status = OK, msg = '''', data = None\<rparr>"



record config_request =
  params :: "(string \<times> pyval) list"

record import_request =
  strategy :: "string option"

record history_request =
  days :: pyval
  verbose :: pyval
  precision :: pyval

record balance_limit_request =
  exchange :: pyval
  asset :: pyval
  amount :: pyval

record balance_paper_request =
  paper_asset :: pyval
  paper_amount :: pyval

section \<open>The application object\<close>

text \<open>
  \<^verbatim>\<open>HummingbotApplication\<close> is a collaborator: each method the dispatcher calls is a
  call on the application's state \<open>'s\<close>, free to raise and to change that state. \<open>config\<close>
  takes \<open>None\<close> for the call without arguments and \<open>Some (key, value)\<close> otherwise.
  \<open>strategy_status\<close> is the coroutine run to completion by \<^verbatim>\<open>run_until_complete\<close>.
  \<open>get_history_trades\<close> returns an object of type \<open>'q\<close> whose truth value and whose
  \<^verbatim>\<open>all()\<close> method are \<open>trades_truthy\<close> and \<open>trades_all\<close>.
\<close>

record ('s, 'q) HummingbotApplication =
  start :: "pyval \<Rightarrow> pyval \<Rightarrow> pyval \<Rightarrow> pyval \<Rightarrow> (unit, 's) call"
  stop :: "pyval \<Rightarrow> (unit, 's) call"
  config :: "(string \<times> pyval) option \<Rightarrow> (unit, 's) call"
  configurable_keys :: "(string list, 's) call"
  import_command :: "string \<Rightarrow> (unit, 's) call"
  notify :: "string \<Rightarrow> (unit, 's) call"
  strategy_status :: "(string, 's) call"
  history :: "pyval \<Rightarrow> pyval \<Rightarrow> pyval \<Rightarrow> (unit, 's) call"
  get_history_trades :: "pyval \<Rightarrow> ('q, 's) call"
  trades_truthy :: "'q \<Rightarrow> bool"
  trades_all :: "'q \<Rightarrow> (pyval list, 's) call"
  balance :: "string \<Rightarrow> pyval list \<Rightarrow> (pyval, 's) call"

section \<open>The command dispatcher (class MQTTCommands)\<close>

text \<open>
  Every handler builds a default response, runs the application call inside
  \<^verbatim>\<open>try: ... except Exception as e:\<close> and returns the response. The \<^verbatim>\<open>except\<close> branch sets
  \<open>status\<close> and \<open>msg\<close> on the response object as the \<^verbatim>\<open>try\<close> body left it. An exception that
  \<^verbatim>\<open>except Exception\<close> does not catch leaves the handler (\<open>Inl\<close>).
\<close>

definition on_error :: "py_exc \<Rightarrow> 'a response_scheme \<Rightarrow> 's \<Rightarrow> (py_exc + 'a response_scheme) \<times> 's" where
  "on_error e response s =
     (if is_Exception e then (Inr (response\<lparr>status := ERROR, msg := str e\<rparr>), s)
      else (Inl e, s))"



text \<open>
  The loop of \<^verbatim>\<open>_on_cmd_config\<close> over \<^verbatim>\<open>msg.params\<close>. It returns the exception that ended it,
  if any, with the response as the loop left it: \<^verbatim>\<open>response.changes.append\<close> runs after
  \<^verbatim>\<open>config(param[0], param[1])\<close> has returned.
\<close>

fun config_params ::
  "('s, 'q) HummingbotApplication \<Rightarrow> (string \<times> pyval) list \<Rightarrow> config_response \<Rightarrow> 's
     \<Rightarrow> py_exc option \<times> config_response \<times> 's" where
  "config_params hb_app [] response s = (None, response, s)"
| "config_params hb_app (param # rest) response s =
     (case configurable_keys hb_app s of
        (Inl e, s1) \<Rightarrow> (Some e, response, s1)
      | (Inr keys, s1) \<Rightarrow>
          if fst param \<in> set keys then
            (case config hb_app (Some (fst param, snd param)) s1 of
               (Inl e, s2) \<Rightarrow> (Some e, response, s2)
             | (Inr u, s2) \<Rightarrow>
                 config_params hb_app rest
                   (response\<lparr>changes := changes response @ [(fst param, snd param)]\<rparr>) s2)
          else config_params hb_app rest response s1)"

definition on_cmd_config ::
  "('s, 'q) HummingbotApplication \<Rightarrow> config_request \<Rightarrow> (config_response, 's) call" where
  "on_cmd_config hb_app request s =
     (let response = ConfigResponse in
      case (if length (params request) = 0 then
              (case config hb_app None s of
                 (Inl e, s1) \<Rightarrow> (Some e, response, s1)
               | (Inr u, s1) \<Rightarrow> (None, response, s1))
            else config_params hb_app (params request) response s) of
        (None, response, s') \<Rightarrow> (Inr response, s')
      | (Some e, response, s') \<Rightarrow> on_error e response s')"

text \<open>
  \<^verbatim>\<open>_on_cmd_import\<close>: the call to \<^verbatim>\<open>notify\<close> sits in the \<^verbatim>\<open>except\<close> branch, before the
  response is touched and outside any \<^verbatim>\<open>try\<close>.
\<close>

definition on_cmd_import ::
  "('s, 'q) HummingbotApplication \<Rightarrow> import_request \<Rightarrow> (response, 's) call" where
  "on_cmd_import hb_app request s =
     (let response = Response; strategy_name = strategy request in
      case strategy_name of
        None \<Rightarrow> (Inr response, s)
      | Some name \<Rightarrow>
          (let strategy_file_name = name @ ''.yml'' in
           case import_command hb_app strategy_file_name s of
             (Inr u, s1) \<Rightarrow> (Inr response, s1)
           | (Inl e, s1) \<Rightarrow>
               if is_Exception e then
                 (case notify hb_app (str e) s1 of
                    (Inl e', s2) \<Rightarrow> (Inl e', s2)
                  | (Inr u, s2) \<Rightarrow> (Inr (response\<lparr>status := ERROR, msg := str e\<rparr>), s2))
               else (Inl e, s1)))"

text \<open>
  \<^verbatim>\<open>str.strip()\<close> without arguments removes leading and trailing whitespace; on code
  points below 256 these are 9 to 13, 28 to 32, 133 and 160.
\<close>

definition is_space :: "char \<Rightarrow> bool" where
  "is_space c =
     (let n = (of_char c :: nat) in (9 \<le> n \<and> n \<le> 13) \<or> (28 \<le> n \<and> n \<le> 32) \<or> n = 133 \<or> n = 160)"

definition strip :: "string \<Rightarrow> string" where
  "strip s = rev (dropWhile is_space (rev (dropWhile is_space s)))"

definition on_cmd_status ::
  "('s, 'q) HummingbotApplication \<Rightarrow> unit \<Rightarrow> (string option data_response, 's) call" where
  "on_cmd_status hb_app request s =
     (let response = StatusResponse in
      case strategy_status hb_app s of
        (Inr text, s1) \<Rightarrow> (Inr (response\<lparr>data := Some (strip text)\<rparr>), s1)
      | (Inl e, s1) \<Rightarrow> on_error e response s1)"

definition on_cmd_history ::
  "('s, 'q) HummingbotApplication \<Rightarrow> history_request \<Rightarrow> (history_response, 's) call" where
  "on_cmd_history hb_app request s =
     (let response = HistoryResponse in
      case history hb_app (days request) (verbose request) (precision request) s of
        (Inl e, s1) \<Rightarrow> on_error e response s1
      | (Inr u, s1) \<Rightarrow>
          (case get_history_trades hb_app (days request) s1 of
             (Inl e, s2) \<Rightarrow> on_error e response s2
           | (Inr found, s2) \<Rightarrow>
               if trades_truthy hb_app found then
                 (case trades_all hb_app found s2 of
                    (Inl e, s3) \<Rightarrow> on_error e response s3
                  | (Inr rows, s3) \<Rightarrow> (Inr (response\<lparr>trades := rows\<rparr>), s3))
               else (Inr response, s2)))"

definition on_cmd_balance_limit ::
  "('s, 'q) HummingbotApplication \<Rightarrow> balance_limit_request
     \<Rightarrow> (pyval option data_response, 's) call" where
  "on_cmd_balance_limit hb_app request s =
     (let response = BalanceResponse in
      case balance hb_app ''limit'' [exchange request, asset request, amount request] s of
        (Inr d, s1) \<Rightarrow> (Inr (response\<lparr>data := Some d\<rparr>), s1)
      | (Inl e, s1) \<Rightarrow> on_error e response s1)"

definition on_cmd_balance_paper ::
  "('s, 'q) HummingbotApplication \<Rightarrow> balance_paper_request
     \<Rightarrow> (pyval option data_response, 's) call" where
  "on_cmd_balance_paper hb_app request s =
     (let response = BalanceResponse in
      case balance hb_app ''paper'' [paper_asset request, paper_amount request] s of
        (Inr d, s1) \<Rightarrow> (Inr (response\<lparr>data := Some d\<rparr>), s1)
      | (Inl e, s1) \<Rightarrow> on_error e response s1)"

section \<open>The event forwarder (class MQTTEventForwarder)\<close>

text \<open>
  The members of \<^verbatim>\<open>events.MarketEvent\<close> that the source names. The enumeration itself is
  declared outside the source, so the integer \<^verbatim>\<open>.value\<close> of each member is a parameter
  (\<open>member_value\<close> below); \<open>member_name\<close> is the member's name, as the label table of
  \<^verbatim>\<open>_send_mqtt_event\<close> spells it.
\<close>

datatype MarketEvent =
  BuyOrderCreated
| BuyOrderCompleted
| SellOrderCreated
| SellOrderCompleted
| OrderFilled
| OrderFailure
| OrderCancelled
| OrderExpired
| FundingPaymentCompleted
| RangePositionLiquidityAdded
| RangePositionLiquidityRemoved
| RangePositionUpdate
| RangePositionUpdateFailure
| RangePositionFeeCollected
| RangePositionClosed

fun member_name :: "MarketEvent \<Rightarrow> string" where
  "member_name BuyOrderCreated = ''BuyOrderCreated''"
| "member_name BuyOrderCompleted = ''BuyOrderCompleted''"
| "member_name SellOrderCreated = ''SellOrderCreated''"
| "member_name SellOrderCompleted = ''SellOrderCompleted''"
| "member_name OrderFilled = ''OrderFilled''"
| "member_name OrderFailure = ''OrderFailure''"
| "member_name OrderCancelled = ''OrderCancelled''"
| "member_name OrderExpired = ''OrderExpired''"
| "member_name FundingPaymentCompleted = ''FundingPaymentCompleted''"
| "member_name RangePositionLiquidityAdded = ''RangePositionLiquidityAdded''"
| "member_name RangePositionLiquidityRemoved = ''RangePositionLiquidityRemoved''"
| "member_name RangePositionUpdate = ''RangePositionUpdate''"
| "member_name RangePositionUpdateFailure = ''RangePositionUpdateFailure''"
| "member_name RangePositionFeeCollected = ''RangePositionFeeCollected''"
| "member_name RangePositionClosed = ''RangePositionClosed''"

text \<open>
  A Python \<^verbatim>\<open>dict\<close> is an association list with one entry per key. A dict display
  \<^verbatim>\<open>{k1: v1, k2: v2, ...}\<close> stores its items from left to right, a later item replacing the
  value of an equal earlier key. \<^verbatim>\<open>d[k]\<close> is \<open>map_of d k\<close>, where \<open>None\<close> stands for the
  \<^verbatim>\<open>KeyError\<close>; \<^verbatim>\<open>d.pop(k)\<close> returns the value and the dict without the key, or \<open>None\<close> for
  the \<^verbatim>\<open>KeyError\<close>. Both \<^verbatim>\<open>KeyError\<close>s are caught where the source raises them.
\<close>

definition dict_display :: "('k \<times> 'v) list \<Rightarrow> ('k \<times> 'v) list" where
  "dict_display items = foldl (\<lambda>d (k, v). AList.update k v d) [] items"

definition dict_pop :: "'k \<Rightarrow> ('k \<times> 'v) list \<Rightarrow> ('v \<times> ('k \<times> 'v) list) option" where
  "dict_pop k d = (case map_of d k of None \<Rightarrow> None | Some v \<Rightarrow> Some (v, AList.delete k d))"

record event_message =
  ev_timestamp :: int
  ev_type :: string
  ev_data :: "(string \<times> pyval) list"

text \<open>
  An event payload is any Python object. The source probes it with library functions; the
  model describes the object by what each probe answers: \<^verbatim>\<open>is_dataclass(event)\<close>,
  the outcome of \<^verbatim>\<open>asdict(event)\<close>, \<^verbatim>\<open>isinstance(event, tuple)\<close>,
  \<^verbatim>\<open>hasattr(event, '_fields')\<close>, the outcome of \<^verbatim>\<open>event._asdict()\<close> and the outcome of
  \<^verbatim>\<open>dict(event)\<close>.
\<close>

record event_payload =
  is_dataclass :: bool
  asdict :: "py_exc + (string \<times> pyval) list"
  is_tuple :: bool
  has_fields :: bool
  nt_asdict :: "py_exc + (string \<times> pyval) list"
  dict_of :: "py_exc + (string \<times> pyval) list"

type_synonym thread = nat

text \<open>
  What \<^verbatim>\<open>_send_mqtt_event\<close> reads from its surroundings: the thread that runs it, the main
  thread, the wall clock (\<^verbatim>\<open>datetime.now().timestamp()\<close>), the values of the enumeration
  members, and the publisher \<^verbatim>\<open>self.event_fw_pub\<close>, whose \<^verbatim>\<open>publish\<close> is a call on the bus
  state \<open>'p\<close> made by some thread.
\<close>

record 'p runtime =
  current_thread :: thread
  main_thread :: thread
  now :: real
  member_value :: "MarketEvent \<Rightarrow> int"
  publish :: "thread \<Rightarrow> event_message \<Rightarrow> (unit, 'p) call"

text \<open>
  The state \<^verbatim>\<open>_send_mqtt_event\<close> acts on: the callbacks handed to
  \<^verbatim>\<open>self._ev_loop.call_soon_threadsafe\<close> and not yet run, oldest first, each the argument
  triple of the scheduled \<^verbatim>\<open>_send_mqtt_event\<close> call, and the state of the bus.
\<close>

record 'p world =
  pending :: "(int \<times> nat \<times> event_payload) list"
  bus :: 'p

text \<open>Lines 292 to 312: the label table and the lookup, \<open>"Unknown"\<close> on \<^verbatim>\<open>KeyError\<close>.\<close>

definition event_types :: "(MarketEvent \<Rightarrow> int) \<Rightarrow> (int \<times> string) list" where
  "event_types val =
     dict_display
       [(val BuyOrderCreated, ''BuyOrderCreated''),
        (val BuyOrderCompleted, ''BuyOrderCompleted''),
        (val SellOrderCreated, ''SellOrderCreated''),
        (val SellOrderCompleted, ''SellOrderCompleted''),
        (val OrderFilled, ''OrderFilled''),
        (val OrderCancelled, ''OrderCancelled''),
        (val OrderExpired, ''OrderExpired''),
        (val OrderFailure, ''OrderFailure''),
        (val FundingPaymentCompleted, ''FundingPaymentCompleted''),
        (val RangePositionLiquidityAdded, ''RangePositionLiquidityAdded''),
        (val RangePositionLiquidityRemoved, ''RangePositionLiquidityRemoved''),
        (val RangePositionUpdate, ''RangePositionUpdate''),
        (val RangePositionUpdateFailure, ''RangePositionUpdateFailure''),
        (val RangePositionFeeCollected, ''RangePositionFeeCollected''),
        (val RangePositionClosed, ''RangePositionClosed'')]"

definition event_type_of :: "(MarketEvent \<Rightarrow> int) \<Rightarrow> int \<Rightarrow> string" where
  "event_type_of val event_tag =
     (case map_of (event_types val) event_tag of
        Some label \<Rightarrow> label
      | None \<Rightarrow> ''Unknown'')"

text \<open>
  Lines 314 to 322: the conversion of the payload to a dict. Only \<^verbatim>\<open>dict(event)\<close> runs inside
  a \<^verbatim>\<open>try\<close>, and its \<^verbatim>\<open>except\<close> clause names \<^verbatim>\<open>TypeError\<close> and \<^verbatim>\<open>ValueError\<close>.
\<close>

definition event_data_of :: "event_payload \<Rightarrow> py_exc + (string \<times> pyval) list" where
  "event_data_of event =
     (if is_dataclass event then asdict event
      else if is_tuple event \<and> has_fields event then nt_asdict event
      else
        (case dict_of event of
           Inr d \<Rightarrow> Inr d
         | Inl e \<Rightarrow> if kind e = TypeError \<or> kind e = ValueError then Inr [] else Inl e))"

text \<open>Lines 324 to 327: the timestamp is popped from the dict, or read from the clock.\<close>

definition pop_timestamp ::
  "real \<Rightarrow> (string \<times> pyval) list \<Rightarrow> pyval \<times> (string \<times> pyval) list" where
  "pop_timestamp clock event_data =
     (case dict_pop ''timestamp'' event_data of
        Some (v, rest) \<Rightarrow> (v, rest)
      | None \<Rightarrow> (PyFloat clock, event_data))"

definition send_mqtt_event ::
  "'p runtime \<Rightarrow> int \<Rightarrow> nat \<Rightarrow> event_payload \<Rightarrow> (unit, 'p world) call" where
  "send_mqtt_event rt event_tag pubsub event w =
     (if current_thread rt \<noteq> main_thread rt then
        (Inr (), w\<lparr>pending := pending w @ [(event_tag, pubsub, event)]\<rparr>)
      else
        (let event_type = event_type_of (member_value rt) event_tag in
         case event_data_of event of
           Inl e \<Rightarrow> (Inl e, w)
         | Inr event_data \<Rightarrow>
             (case pop_timestamp (now rt) event_data of
                (timestamp, event_data) \<Rightarrow>
                  (case py_int timestamp of
                     Inl e \<Rightarrow> (Inl e, w)
                   | Inr n \<Rightarrow>
                       (case publish rt (current_thread rt)
                               \<lparr>ev_timestamp = n, ev_type = event_type, ev_data = event_data\<rparr>
                               (bus w) of
                          (r, b) \<Rightarrow> (r, w\<lparr>bus := b\<rparr>))))))"

text \<open>
  What handing a message to \<^verbatim>\<open>publish\<close> on the main thread does to the world. The
  properties of \<^verbatim>\<open>_send_mqtt_event\<close> are stated in these terms.
\<close>

definition publish_on_main :: "'p runtime \<Rightarrow> event_message \<Rightarrow> (unit, 'p world) call" where
  "publish_on_main rt message w =
     (case publish rt (main_thread rt) message (bus w) of (r, b) \<Rightarrow> (r, w\<lparr>bus := b\<rparr>))"

text \<open>
  The owning context's event loop, as far as the thread hop needs it: one turn of the loop
  takes the callbacks scheduled so far and runs them in order on the main thread, which is
  where \<^verbatim>\<open>__init__\<close> obtained the loop. An exception a callback raises goes to the loop,
  not to the thread that scheduled the callback; the model keeps the state the callback
  left and goes on with the next one. The loop is taken to be open, so that
  \<^verbatim>\<open>call_soon_threadsafe\<close> accepts the callback.
\<close>

fun run_callbacks ::
  "'p runtime \<Rightarrow> (int \<times> nat \<times> event_payload) list \<Rightarrow> 'p world \<Rightarrow> 'p world" where
  "run_callbacks rt [] w = w"
| "run_callbacks rt ((event_tag, pubsub, event) # rest) w =
     run_callbacks rt rest
       (snd (send_mqtt_event (rt\<lparr>current_thread := main_thread rt\<rparr>) event_tag pubsub event w))"

definition run_loop_once :: "'p runtime \<Rightarrow> 'p world \<Rightarrow> 'p world" where
  "run_loop_once rt w = run_callbacks rt (pending w) (w\<lparr>pending := []\<rparr>)"

text \<open>
  \<^verbatim>\<open>__init__\<close> and \<^verbatim>\<open>start_event_listener\<close>. The collaborators: the application's \<^verbatim>\<open>uid\<close> and
  \<^verbatim>\<open>markets.values()\<close>, the node's \<^verbatim>\<open>create_publisher\<close>, each market's \<^verbatim>\<open>add_listener\<close>,
  the logger's \<^verbatim>\<open>info\<close>, and the text Python prints for the forwarder object in the log
  line. \<^verbatim>\<open>_app_event_pairs\<close> is the empty list, so the loops over it make no call.
\<close>

record ('s, 'm, 'b) surroundings =
  uid :: string
  markets_values :: "'s \<Rightarrow> 'm list"
  create_publisher :: "string \<Rightarrow> ('b, 's) call"
  add_listener :: "'m \<Rightarrow> MarketEvent \<Rightarrow> (unit, 's) call"
  logger_info :: "string \<Rightarrow> (unit, 's) call"
  forwarder_repr :: string

record ('m, 'b) MQTTEventForwarder =
  markets :: "'m list"
  topic :: string
  market_event_pairs :: "MarketEvent list"
  app_event_pairs :: "MarketEvent list"
  event_fw_pub :: 'b

text \<open>\<^verbatim>\<open>str.replace(old, new)\<close> for a non-empty \<open>old\<close>: every occurrence, left to right.\<close>

function replace :: "string \<Rightarrow> string \<Rightarrow> string \<Rightarrow> string" where
  "replace old new [] = []"
| "replace old new (c # cs) =
     (if old \<noteq> [] \<and> take (length old) (c # cs) = old
      then new @ replace old new (drop (length old) (c # cs))
      else c # replace old new cs)"
  by pat_completeness auto
termination
  by (relation "measure (\<lambda>(old, new, s). length s)") (auto simp: neq_Nil_conv)

definition EVENT_URI :: string where
  "EVENT_URI = ''hbot/$UID/events''"

definition the_market_event_pairs :: "MarketEvent list" where
  "the_market_event_pairs =
     [BuyOrderCreated, BuyOrderCompleted, SellOrderCreated, SellOrderCompleted, OrderFilled,
      OrderFailure, OrderCancelled, OrderExpired, FundingPaymentCompleted,
      RangePositionLiquidityAdded, RangePositionLiquidityRemoved, RangePositionUpdate,
      RangePositionUpdateFailure, RangePositionFeeCollected, RangePositionClosed]"

fun listen_market ::
  "('s, 'm, 'b) surroundings \<Rightarrow> 'm \<Rightarrow> MarketEvent list \<Rightarrow> (unit, 's) call" where
  "listen_market env market [] s = (Inr (), s)"
| "listen_market env market (event_pair # rest) s =
     (case add_listener env market event_pair s of
        (Inl e, s1) \<Rightarrow> (Inl e, s1)
      | (Inr u, s1) \<Rightarrow>
          (case logger_info env
                  (''Created MQTT bridge for event: MarketEvent.'' @ member_name event_pair
                     @ '', '' @ forwarder_repr env) s1 of
             (Inl e, s2) \<Rightarrow> (Inl e, s2)
           | (Inr u, s2) \<Rightarrow> listen_market env market rest s2))"

fun listen_markets ::
  "('s, 'm, 'b) surroundings \<Rightarrow> 'm list \<Rightarrow> MarketEvent list \<Rightarrow> (unit, 's) call" where
  "listen_markets env [] pairs s = (Inr (), s)"
| "listen_markets env (market # rest) pairs s =
     (case listen_market env market pairs s of
        (Inl e, s1) \<Rightarrow> (Inl e, s1)
      | (Inr u, s1) \<Rightarrow> listen_markets env rest pairs s1)"

definition start_event_listener ::
  "('s, 'm, 'b) surroundings \<Rightarrow> ('m, 'b) MQTTEventForwarder \<Rightarrow> (unit, 's) call" where
  "start_event_listener env self s = listen_markets env (markets self) (market_event_pairs self) s"

definition MQTTEventForwarder_init ::
  "thread \<Rightarrow> thread \<Rightarrow> ('s, 'm, 'b) surroundings \<Rightarrow> (('m, 'b) MQTTEventForwarder, 's) call" where
  "MQTTEventForwarder_init current main env s =
     (if current \<noteq> main then
        (Inl (Exc EnvironmentError
                ''MQTTEventForwarder can only be initialized from the main thread.''), s)
      else
        (let the_markets = markets_values env s;
             the_topic = replace ''$UID'' (uid env) EVENT_URI in
         case create_publisher env the_topic s of
           (Inl e, s1) \<Rightarrow> (Inl e, s1)
         | (Inr pub, s1) \<Rightarrow>
             (let self = \<lparr>markets = the_markets, topic = the_topic,
                          market_event_pairs = the_market_event_pairs,
                          app_event_pairs = [], event_fw_pub = pub\<rparr> in
              case start_event_listener env self s1 of
                (Inl e, s2) \<Rightarrow> (Inl e, s2)
              | (Inr u, s2) \<Rightarrow> (Inr self, s2))))"

section \<open>The log sink (class MQTTLogHandler)\<close>

text \<open>
  \<^verbatim>\<open>emit\<close> calls \<^verbatim>\<open>self.format(record)\<close>, builds the \<^verbatim>\<open>LogMessage\<close> with \<^verbatim>\<open>time.time()\<close>,
  publishes it and returns it. Formatting and publishing are collaborators that may raise;
  \<^verbatim>\<open>emit\<close> has no \<^verbatim>\<open>try\<close>.
\<close>

record LogRecord =
  levelno :: int
  levelname :: string
  name :: string
  args :: "pyval list"

record log_message =
  log_timestamp :: real
  log_msg :: string
  level_no :: int
  level_name :: string
  logger_name :: string

definition emit ::
  "(LogRecord \<Rightarrow> py_exc + string) \<Rightarrow> real \<Rightarrow> (log_message \<Rightarrow> (unit, 'p) call)
     \<Rightarrow> LogRecord \<Rightarrow> (log_message, 'p) call" where
  "emit format time_now log_publish record p =
     (case format record of
        Inl e \<Rightarrow> (Inl e, p)
      | Inr msg_str \<Rightarrow>
          (let message = \<lparr>log_timestamp = time_now, log_msg = msg_str,
                          level_no = levelno record, level_name = levelname record,
                          logger_name = name record\<rparr> in
           case log_publish message p of
             (Inl e, p1) \<Rightarrow> (Inl e, p1)
           | (Inr u, p1) \<Rightarrow> (Inr message, p1)))"

section \<open>Test doubles\<close>

text \<open>
  A scripted application for the concrete runs below: its state is the list of calls made
  so far, every method appends its own call to that list, and the outcome of each method is
  fixed when the double is built. \<open>quiet_app\<close> succeeds everywhere; a run that needs a
  failing method replaces that one field.
\<close>

datatype app_call =
  CallStart
| CallStop
| CallConfig "(string \<times> pyval) option"
| CallConfigurableKeys
| CallImport string
| CallNotify string
| CallStrategyStatus
| CallHistory
| CallGetHistoryTrades
| CallTradesAll
| CallBalance string "pyval list"

definition recorded :: "py_exc + 'a \<Rightarrow> app_call \<Rightarrow> ('a, app_call list) call" where
  "recorded outcome c calls = (outcome, calls @ [c])"

definition quiet_app :: "(app_call list, pyval list) HummingbotApplication" where
  "quiet_app =
     \<lparr>start = (\<lambda>l r sc q. recorded (Inr ()) CallStart),
      stop = (\<lambda>sk. recorded (Inr ()) CallStop),
      config = (\<lambda>kv. recorded (Inr ()) (CallConfig kv)),
      configurable_keys = recorded (Inr [''k1'', ''k2'']) CallConfigurableKeys,
      import_command = (\<lambda>f. recorded (Inr ()) (CallImport f)),
      notify = (\<lambda>m. recorded (Inr ()) (CallNotify m)),
      strategy_status = recorded (Inr '' running '') CallStrategyStatus,
      history = (\<lambda>d v p. recorded (Inr ()) CallHistory),
      get_history_trades = (\<lambda>d. recorded (Inr [PyInt 7]) CallGetHistoryTrades),
      trades_truthy = (\<lambda>rows. rows \<noteq> []),
      trades_all = (\<lambda>rows. recorded (Inr rows) CallTradesAll),
      balance = (\<lambda>opt args. recorded (Inr (PyInt 0)) (CallBalance opt args))\<rparr>"

definition boom :: py_exc where
  "boom = Exc OtherException ''boom''"

definition bus_down :: py_exc where
  "bus_down = Exc OtherException ''bus down''"

definition config_fails_app :: "(app_call list, pyval list) HummingbotApplication" where
  "config_fails_app = quiet_app\<lparr>config := (\<lambda>kv. recorded (Inl boom) (CallConfig kv))\<rparr>"

definition import_fails_app :: "(app_call list, pyval list) HummingbotApplication" where
  "import_fails_app = quiet_app\<lparr>import_command := (\<lambda>f. recorded (Inl boom) (CallImport f))\<rparr>"

definition notify_fails_too_app :: "(app_call list, pyval list) HummingbotApplication" where
  "notify_fails_too_app =
     import_fails_app\<lparr>notify := (\<lambda>m. recorded (Inl bus_down) (CallNotify m))\<rparr>"

definition status_fails_app :: "(app_call list, pyval list) HummingbotApplication" where
  "status_fails_app = quiet_app\<lparr>strategy_status := recorded (Inl boom) CallStrategyStatus\<rparr>"

definition trades_all_fails_app :: "(app_call list, pyval list) HummingbotApplication" where
  "trades_all_fails_app = quiet_app\<lparr>trades_all := (\<lambda>rows. recorded (Inl boom) CallTradesAll)\<rparr>"

definition cancelled :: py_exc where
  "cancelled = Exc NonException ''cancelled''"

definition status_cancelled_app :: "(app_call list, pyval list) HummingbotApplication" where
  "status_cancelled_app = quiet_app\<lparr>strategy_status := recorded (Inl cancelled) CallStrategyStatus\<rparr>"

definition import_interrupted_app :: "(app_call list, pyval list) HummingbotApplication" where
  "import_interrupted_app = quiet_app\<lparr>import_command := (\<lambda>f. recorded (Inl cancelled) (CallImport f))\<rparr>"

definition second_config_fails_app :: "(app_call list, pyval list) HummingbotApplication" where
  "second_config_fails_app =
     quiet_app\<lparr>config := (\<lambda>kv. recorded (if kv = Some (''k2'', PyInt 2) then Inl boom else Inr ())
                                   (CallConfig kv))\<rparr>"

text \<open>Doubles for the log sink: two formatters, two publishers and a record.\<close>

definition plain_format :: "LogRecord \<Rightarrow> py_exc + string" where
  "plain_format record = Inr (name record @ '': '' @ levelname record)"

definition failing_format :: "LogRecord \<Rightarrow> py_exc + string" where
  "failing_format record = Inl (Exc TypeError ''not all arguments converted during string formatting'')"

definition recording_publish :: "log_message \<Rightarrow> (unit, log_message list) call" where
  "recording_publish message sent = (Inr (), sent @ [message])"

definition failing_publish :: "log_message \<Rightarrow> (unit, log_message list) call" where
  "failing_publish message sent = (Inl bus_down, sent)"

definition a_record :: LogRecord where
  "a_record = \<lparr>levelno = 20, levelname = ''INFO'', name = ''hummingbot'', args = []\<rparr>"

text \<open>
  Doubles for the event forwarder: one assignment of values to the enumeration members, a
  bus that records which thread published which message, a runtime on the main thread and
  one on another thread, and payloads of the three shapes the source distinguishes.
\<close>

definition known_values :: "MarketEvent \<Rightarrow> int" where
  "known_values e =
     (case e of
        BuyOrderCreated \<Rightarrow> 200 | BuyOrderCompleted \<Rightarrow> 102 | SellOrderCreated \<Rightarrow> 201
      | SellOrderCompleted \<Rightarrow> 103 | OrderFilled \<Rightarrow> 107 | OrderFailure \<Rightarrow> 198
      | OrderCancelled \<Rightarrow> 106 | OrderExpired \<Rightarrow> 108 | FundingPaymentCompleted \<Rightarrow> 202
      | RangePositionLiquidityAdded \<Rightarrow> 300 | RangePositionLiquidityRemoved \<Rightarrow> 301
      | RangePositionUpdate \<Rightarrow> 302 | RangePositionUpdateFailure \<Rightarrow> 303
      | RangePositionFeeCollected \<Rightarrow> 304 | RangePositionClosed \<Rightarrow> 305)"

definition recording_bus :: "thread \<Rightarrow> event_message \<Rightarrow> (unit, (thread \<times> event_message) list) call" where
  "recording_bus t message sent = (Inr (), sent @ [(t, message)])"

definition on_main :: "(thread \<times> event_message) list runtime" where
  "on_main = \<lparr>current_thread = 0, main_thread = 0, now = 1700000000.5,
              member_value = known_values, publish = recording_bus\<rparr>"

definition off_main :: "(thread \<times> event_message) list runtime" where
  "off_main = on_main\<lparr>current_thread := 7\<rparr>"

definition no_dataclass :: py_exc where
  "no_dataclass = Exc TypeError ''asdict() should be called on dataclass instances''"

definition no_asdict :: py_exc where
  "no_asdict = Exc OtherException ''object has no attribute _asdict''"

definition not_iterable :: py_exc where
  "not_iterable = Exc TypeError ''object is not iterable''"

definition dataclass_instance :: "(string \<times> pyval) list \<Rightarrow> event_payload" where
  "dataclass_instance named_fields =
     \<lparr>is_dataclass = True, asdict = Inr named_fields, is_tuple = False, has_fields = False,
      nt_asdict = Inl no_asdict, dict_of = Inl not_iterable\<rparr>"

definition named_tuple :: "(string \<times> pyval) list \<Rightarrow> event_payload" where
  "named_tuple named_fields =
     \<lparr>is_dataclass = False, asdict = Inl no_dataclass, is_tuple = True, has_fields = True,
      nt_asdict = Inr named_fields, dict_of = Inl not_iterable\<rparr>"


definition idle :: "(thread \<times> event_message) list world" where
  "idle = \<lparr>pending = [], bus = []\<rparr>"

text \<open>
  A field that holds \<^verbatim>\<open>None\<close>, on which \<^verbatim>\<open>int\<close> raises a \<^verbatim>\<open>TypeError\<close>.
\<close>

definition int_of_none :: py_exc where
  "int_of_none =
     Exc TypeError ''int() argument must be a string, a bytes-like object or a real number''"

definition none_value :: pyval where
  "none_value = PyObj (Inl int_of_none) ''None''"

text \<open>Doubles for the construction of the forwarder: every collaborator records its call.\<close>

datatype setup_call = CreatePublisher string | AddListener nat MarketEvent | LoggerInfo string

definition recording_env :: "(setup_call list, nat, string) surroundings" where
  "recording_env =
     \<lparr>uid = ''bot1'',
      markets_values = (\<lambda>s. [1]),
      create_publisher = (\<lambda>t s. (Inr t, s @ [CreatePublisher t])),
      add_listener = (\<lambda>m e s. (Inr (), s @ [AddListener m e])),
      logger_info = (\<lambda>line s. (Inr (), s @ [LoggerInfo line])),
      forwarder_repr = ''fw''\<rparr>"

lemmas app_doubles =
  quiet_app_def config_fails_app_def import_fails_app_def notify_fails_too_app_def
  status_fails_app_def trades_all_fails_app_def recorded_def boom_def bus_down_def

lemmas more_doubles = cancelled_def status_cancelled_app_def import_interrupted_app_def

lemmas log_doubles =
  plain_format_def failing_format_def recording_publish_def failing_publish_def a_record_def


section \<open>The command dispatcher: what an exception does to a handler\<close>





































section \<open>The config handler stops at the first failure\<close>

text \<open>
  C3, as the claim states it, fails: when applying the first pair raises, the pair has not
  been appended to \<open>changes\<close>. The run below has both keys allow-listed and \<open>config\<close>
  raising \<open>boom\<close>; the response has \<open>changes = []\<close>, not \<open>[(k1, v1)]\<close>.
\<close>

theorem config_abort_changes_counterexample:
  "fst (on_cmd_config config_fails_app
          \<lparr>params = [(''k1'', PyInt 1), (''k2'', PyInt 2)]\<rparr> [])
     = Inr \<lparr>status = ERROR, msg = ''boom'', changes = []\<rparr>
   \<and> changes \<lparr>status = ERROR, msg = ''boom'', changes = []\<rparr> \<noteq> [(''k1'', PyInt 1)]"
  by (simp add: on_cmd_config_def ConfigResponse_def app_doubles on_error_def is_Exception_def)

text \<open>
  C3, amended: for a config request \<open>[(k1, v1), (k2, v2)]\<close> where \<open>k1\<close> is allow-listed and
  applying it raises an \<^verbatim>\<open>Exception\<close>, the handler stops at once: the state it returns is
  the state the failed call left (no further call is made, so \<open>k2\<close> is neither validated
  nor applied), the status is \<open>ERROR\<close>, the message is the failure's, and \<open>changes\<close> holds
  the pairs applied before the failure, which is none: \<open>changes = []\<close>. The changes
  accumulated so far are retained: when \<open>k1\<close> is applied and it is applying the allow-listed
  \<open>k2\<close> that raises, \<open>changes = [(k1, v1)]\<close>.
\<close>

theorem config_abort_keeps_applied_changes:
  assumes "is_Exception e"
    and "configurable_keys hb_app s = (Inr keys, sa)"
    and "k1 \<in> set keys"
  shows "(config hb_app (Some (k1, v1)) sa = (Inl e, sb)
            \<longrightarrow> on_cmd_config hb_app \<lparr>params = [(k1, v1), (k2, v2)]\<rparr> s
                  = (Inr \<lparr>status = ERROR, msg = str e, changes = []\<rparr>, sb))
    \<and> (config hb_app (Some (k1, v1)) sa = (Inr (), sb)
        \<and> configurable_keys hb_app sb = (Inr keys_again, sc) \<and> k2 \<in> set keys_again
        \<and> config hb_app (Some (k2, v2)) sc = (Inl e, sd)
            \<longrightarrow> on_cmd_config hb_app \<lparr>params = [(k1, v1), (k2, v2)]\<rparr> s
                  = (Inr \<lparr>status = ERROR, msg = str e, changes = [(k1, v1)]\<rparr>, sd))"
  using assms by (simp add: on_cmd_config_def ConfigResponse_def on_error_def)

theorem config_abort_keeps_applied_changes_witness:
  "on_cmd_config config_fails_app \<lparr>params = [(''k1'', PyInt 1), (''k2'', PyInt 2)]\<rparr> []
     = (Inr \<lparr>status = ERROR, msg = ''boom'', changes = []\<rparr>,
        [CallConfigurableKeys, CallConfig (Some (''k1'', PyInt 1))])
   \<and> on_cmd_config second_config_fails_app \<lparr>params = [(''k1'', PyInt 1), (''k2'', PyInt 2)]\<rparr> []
     = (Inr \<lparr>status = ERROR, msg = ''boom'', changes = [(''k1'', PyInt 1)]\<rparr>,
        [CallConfigurableKeys, CallConfig (Some (''k1'', PyInt 1)),
         CallConfigurableKeys, CallConfig (Some (''k2'', PyInt 2))])"
proof -
  have caught: "is_Exception boom"
    by (simp add: is_Exception_def boom_def)
  have said: "str boom = ''boom''"
    by (simp add: boom_def)
  have keys_a: "configurable_keys config_fails_app [] = (Inr [''k1'', ''k2''], [CallConfigurableKeys])"
    by (simp add: app_doubles)
  have keys_b: "configurable_keys second_config_fails_app []
      = (Inr [''k1'', ''k2''], [CallConfigurableKeys])"
    by (simp add: app_doubles second_config_fails_app_def)
  have allowed: "''k1'' \<in> set [''k1'', ''k2'']"
    by simp
  have raises: "config config_fails_app (Some (''k1'', PyInt 1)) [CallConfigurableKeys]
      = (Inl boom, [CallConfigurableKeys, CallConfig (Some (''k1'', PyInt 1))])"
    by (simp add: app_doubles)
  have applied: "config second_config_fails_app (Some (''k1'', PyInt 1)) [CallConfigurableKeys]
      = (Inr (), [CallConfigurableKeys, CallConfig (Some (''k1'', PyInt 1))])"
    by (simp add: app_doubles second_config_fails_app_def)
  have keys_c: "configurable_keys second_config_fails_app
        [CallConfigurableKeys, CallConfig (Some (''k1'', PyInt 1))]
      = (Inr [''k1'', ''k2''],
         [CallConfigurableKeys, CallConfig (Some (''k1'', PyInt 1)), CallConfigurableKeys])"
    by (simp add: app_doubles second_config_fails_app_def)
  have allowed_too: "''k2'' \<in> set [''k1'', ''k2'']"
    by simp
  have raises_later: "config second_config_fails_app (Some (''k2'', PyInt 2))
        [CallConfigurableKeys, CallConfig (Some (''k1'', PyInt 1)), CallConfigurableKeys]
      = (Inl boom, [CallConfigurableKeys, CallConfig (Some (''k1'', PyInt 1)),
                    CallConfigurableKeys, CallConfig (Some (''k2'', PyInt 2))])"
    by (simp add: app_doubles second_config_fails_app_def)
  have a: "on_cmd_config config_fails_app \<lparr>params = [(''k1'', PyInt 1), (''k2'', PyInt 2)]\<rparr> []
     = (Inr \<lparr>status = ERROR, msg = ''boom'', changes = []\<rparr>,
        [CallConfigurableKeys, CallConfig (Some (''k1'', PyInt 1))])"
    using config_abort_keeps_applied_changes [OF caught keys_a allowed, where ?v1.0 = "PyInt 1"
        and ?k2.0 = "''k2''" and ?v2.0 = "PyInt 2"
        and sb = "[CallConfigurableKeys, CallConfig (Some (''k1'', PyInt 1))]"] raises
    by (simp add: said)
  have b: "on_cmd_config second_config_fails_app \<lparr>params = [(''k1'', PyInt 1), (''k2'', PyInt 2)]\<rparr> []
     = (Inr \<lparr>status = ERROR, msg = ''boom'', changes = [(''k1'', PyInt 1)]\<rparr>,
        [CallConfigurableKeys, CallConfig (Some (''k1'', PyInt 1)),
         CallConfigurableKeys, CallConfig (Some (''k2'', PyInt 2))])"
    using config_abort_keeps_applied_changes [OF caught keys_b allowed, where ?v1.0 = "PyInt 1"
        and ?k2.0 = "''k2''" and ?v2.0 = "PyInt 2"
        and sb = "[CallConfigurableKeys, CallConfig (Some (''k1'', PyInt 1))]"
        and keys_again = "[''k1'', ''k2'']"
        and sc = "[CallConfigurableKeys, CallConfig (Some (''k1'', PyInt 1)), CallConfigurableKeys]"
        and sd = "[CallConfigurableKeys, CallConfig (Some (''k1'', PyInt 1)),
                   CallConfigurableKeys, CallConfig (Some (''k2'', PyInt 2))]"]
      applied keys_c allowed_too raises_later
    by (simp add: said)
  from a b show ?thesis
    by blast
qed

section \<open>Payload fields of an error response\<close>

lemma status_error_payload:
  "fst (on_cmd_status hb_app q s) = Inr r \<Longrightarrow> status r = ERROR \<Longrightarrow> data r = None"
  by (auto simp: on_cmd_status_def StatusResponse_def on_error_def Let_def
      split: prod.splits sum.splits if_splits)

lemma history_error_payload:
  "fst (on_cmd_history hb_app q s) = Inr r \<Longrightarrow> status r = ERROR \<Longrightarrow> trades r = []"
  by (auto simp: on_cmd_history_def HistoryResponse_def on_error_def Let_def
      split: prod.splits sum.splits if_splits)

lemma balance_limit_error_payload:
  "fst (on_cmd_balance_limit hb_app q s) = Inr r \<Longrightarrow> status r = ERROR \<Longrightarrow> data r = None"
  by (auto simp: on_cmd_balance_limit_def BalanceResponse_def on_error_def Let_def
      split: prod.splits sum.splits if_splits)

lemma balance_paper_error_payload:
  "fst (on_cmd_balance_paper hb_app q s) = Inr r \<Longrightarrow> status r = ERROR \<Longrightarrow> data r = None"
  by (auto simp: on_cmd_balance_paper_def BalanceResponse_def on_error_def Let_def
      split: prod.splits sum.splits if_splits)

lemma status_raise_sets_error:
  "strategy_status hb_app s = (Inl e, sa) \<Longrightarrow> fst (on_cmd_status hb_app q s) = Inr r \<Longrightarrow>
   status r = ERROR"
  by (auto simp: on_cmd_status_def StatusResponse_def on_error_def split: if_splits)

lemma history_raise_sets_error:
  "history hb_app (days q) (verbose q) (precision q) s = (Inl e, sa)
   \<or> (history hb_app (days q) (verbose q) (precision q) s = (Inr (), sb)
       \<and> get_history_trades hb_app (days q) sb = (Inl e, sa))
   \<or> (history hb_app (days q) (verbose q) (precision q) s = (Inr (), sb)
       \<and> get_history_trades hb_app (days q) sb = (Inr found, sc)
       \<and> trades_truthy hb_app found \<and> trades_all hb_app found sc = (Inl e, sa)) \<Longrightarrow>
   fst (on_cmd_history hb_app q s) = Inr r \<Longrightarrow> status r = ERROR"
  by (auto simp: on_cmd_history_def HistoryResponse_def on_error_def split: if_splits)

lemma balance_limit_raise_sets_error:
  "balance hb_app ''limit'' [exchange q, asset q, amount q] s = (Inl e, sa) \<Longrightarrow>
   fst (on_cmd_balance_limit hb_app q s) = Inr r \<Longrightarrow> status r = ERROR"
  by (auto simp: on_cmd_balance_limit_def BalanceResponse_def on_error_def split: if_splits)

lemma balance_paper_raise_sets_error:
  "balance hb_app ''paper'' [paper_asset q, paper_amount q] s = (Inl e, sa) \<Longrightarrow>
   fst (on_cmd_balance_paper hb_app q s) = Inr r \<Longrightarrow> status r = ERROR"
  by (auto simp: on_cmd_balance_paper_def BalanceResponse_def on_error_def split: if_splits)

text \<open>
  C4: for every command handler except config, whenever an application call of the handler
  raises, every payload field of the returned response is at its default: \<open>data\<close> unset for
  status, balance-limit and balance-paper, \<open>trades\<close> empty for history, also when it is the
  last call, \<^verbatim>\<open>trades.all()\<close>, that raises. The responses of start, stop and import have no
  payload field. More generally a returned response with status \<open>ERROR\<close> has its payload at
  the default.
\<close>

theorem error_response_payload_default:
  "(strategy_status hb_app s = (Inl e, sa) \<and> fst (on_cmd_status hb_app () s) = Inr r_status
      \<longrightarrow> status r_status = ERROR \<and> data r_status = None)
   \<and> ((history hb_app (days q_history) (verbose q_history) (precision q_history) s = (Inl e, sa)
        \<or> (history hb_app (days q_history) (verbose q_history) (precision q_history) s = (Inr (), sb)
            \<and> get_history_trades hb_app (days q_history) sb = (Inl e, sa))
        \<or> (history hb_app (days q_history) (verbose q_history) (precision q_history) s = (Inr (), sb)
            \<and> get_history_trades hb_app (days q_history) sb = (Inr found, sc)
            \<and> trades_truthy hb_app found \<and> trades_all hb_app found sc = (Inl e, sa)))
       \<and> fst (on_cmd_history hb_app q_history s) = Inr r_history
      \<longrightarrow> status r_history = ERROR \<and> trades r_history = [])
   \<and> (balance hb_app ''limit'' [exchange q_limit, asset q_limit, amount q_limit] s = (Inl e, sa)
       \<and> fst (on_cmd_balance_limit hb_app q_limit s) = Inr r_limit
      \<longrightarrow> status r_limit = ERROR \<and> data r_limit = None)
   \<and> (balance hb_app ''paper'' [paper_asset q_paper, paper_amount q_paper] s = (Inl e, sa)
       \<and> fst (on_cmd_balance_paper hb_app q_paper s) = Inr r_paper
      \<longrightarrow> status r_paper = ERROR \<and> data r_paper = None)
   \<and> (fst (on_cmd_status hb_app () s) = Inr r_status \<and> status r_status = ERROR
      \<longrightarrow> data r_status = None)
   \<and> (fst (on_cmd_history hb_app q_history s) = Inr r_history \<and> status r_history = ERROR
      \<longrightarrow> trades r_history = [])
   \<and> (fst (on_cmd_balance_limit hb_app q_limit s) = Inr r_limit \<and> status r_limit = ERROR
      \<longrightarrow> data r_limit = None)
   \<and> (fst (on_cmd_balance_paper hb_app q_paper s) = Inr r_paper \<and> status r_paper = ERROR
      \<longrightarrow> data r_paper = None)"
proof -
  have a: "status r_status = ERROR \<and> data r_status = None"
    if "strategy_status hb_app s = (Inl e, sa)" "fst (on_cmd_status hb_app () s) = Inr r_status"
    using status_raise_sets_error [OF that] status_error_payload [OF that(2)] by simp
  have b: "status r_history = ERROR \<and> trades r_history = []"
    if "history hb_app (days q_history) (verbose q_history) (precision q_history) s = (Inl e, sa)
        \<or> (history hb_app (days q_history) (verbose q_history) (precision q_history) s = (Inr (), sb)
            \<and> get_history_trades hb_app (days q_history) sb = (Inl e, sa))
        \<or> (history hb_app (days q_history) (verbose q_history) (precision q_history) s = (Inr (), sb)
            \<and> get_history_trades hb_app (days q_history) sb = (Inr found, sc)
            \<and> trades_truthy hb_app found \<and> trades_all hb_app found sc = (Inl e, sa))"
      "fst (on_cmd_history hb_app q_history s) = Inr r_history"
    using history_raise_sets_error [OF that] history_error_payload [OF that(2)] by simp
  have c: "status r_limit = ERROR \<and> data r_limit = None"
    if "balance hb_app ''limit'' [exchange q_limit, asset q_limit, amount q_limit] s = (Inl e, sa)"
      "fst (on_cmd_balance_limit hb_app q_limit s) = Inr r_limit"
    using balance_limit_raise_sets_error [OF that] balance_limit_error_payload [OF that(2)] by simp
  have d: "status r_paper = ERROR \<and> data r_paper = None"
    if "balance hb_app ''paper'' [paper_asset q_paper, paper_amount q_paper] s = (Inl e, sa)"
      "fst (on_cmd_balance_paper hb_app q_paper s) = Inr r_paper"
    using balance_paper_raise_sets_error [OF that] balance_paper_error_payload [OF that(2)] by simp
  show ?thesis
    using a b c d status_error_payload [of hb_app "()" s r_status]
      history_error_payload [of hb_app q_history s r_history]
      balance_limit_error_payload [of hb_app q_limit s r_limit]
      balance_paper_error_payload [of hb_app q_paper s r_paper]
    by blast
qed

theorem error_response_payload_default_witness:
  "status \<lparr>status = ERROR, msg = ''boom'', trades = []\<rparr> = ERROR
   \<and> trades \<lparr>status = ERROR, msg = ''boom'', trades = []\<rparr> = []
   \<and> on_cmd_history trades_all_fails_app
        \<lparr>days = PyInt 1, verbose = PyInt 0, precision = PyInt 2\<rparr> []
      = (Inr \<lparr>status = ERROR, msg = ''boom'', trades = []\<rparr>,
         [CallHistory, CallGetHistoryTrades, CallTradesAll])"
proof -
  let ?q = "\<lparr>days = PyInt 1, verbose = PyInt 0, precision = PyInt 2\<rparr>"
  let ?r = "\<lparr>status = ERROR, msg = ''boom'', trades = []\<rparr>"
  have run: "on_cmd_history trades_all_fails_app ?q []
      = (Inr ?r, [CallHistory, CallGetHistoryTrades, CallTradesAll])"
    by (simp add: on_cmd_history_def HistoryResponse_def on_error_def is_Exception_def app_doubles)
  have h: "history trades_all_fails_app (days ?q) (verbose ?q) (precision ?q) [] = (Inr (), [CallHistory])"
    by (simp add: app_doubles)
  have g: "get_history_trades trades_all_fails_app (days ?q) [CallHistory]
      = (Inr [PyInt 7], [CallHistory, CallGetHistoryTrades])"
    by (simp add: app_doubles)
  have t: "trades_truthy trades_all_fails_app [PyInt 7]"
    by (simp add: app_doubles)
  have a: "trades_all trades_all_fails_app [PyInt 7] [CallHistory, CallGetHistoryTrades]
      = (Inl boom, [CallHistory, CallGetHistoryTrades, CallTradesAll])"
    by (simp add: app_doubles)
  have r: "fst (on_cmd_history trades_all_fails_app ?q []) = Inr ?r"
    by (simp add: run)
  from error_response_payload_default [where hb_app = trades_all_fails_app and s = "[]"
      and q_history = ?q and r_history = ?r and e = boom and sb = "[CallHistory]"
      and found = "[PyInt 7]" and sc = "[CallHistory, CallGetHistoryTrades]"
      and sa = "[CallHistory, CallGetHistoryTrades, CallTradesAll]"] h g t a r
  have "status ?r = ERROR \<and> trades ?r = []"
    by blast
  with run show ?thesis by blast
qed

section \<open>The import handler\<close>

text \<open>
  C5, as the claim states it, fails where it says that on failure the handler returns the
  error response. When the import operation raises an exception outside the \<^verbatim>\<open>Exception\<close>
  hierarchy, the handler neither notifies nor returns; and when the import operation raises
  \<open>boom\<close> and \<^verbatim>\<open>notify\<close>, called first, raises \<open>bus_down\<close>, the handler has forwarded the
  message and raises \<open>bus_down\<close> instead of returning the error response.
\<close>

theorem import_response_counterexample:
  "import_command import_interrupted_app ''conf_1.yml'' [] = (Inl cancelled, [CallImport ''conf_1.yml''])
   \<and> on_cmd_import import_interrupted_app \<lparr>strategy = Some ''conf_1''\<rparr> []
       = (Inl cancelled, [CallImport ''conf_1.yml''])
   \<and> import_command notify_fails_too_app ''conf_1.yml'' [] = (Inl boom, [CallImport ''conf_1.yml''])
   \<and> on_cmd_import notify_fails_too_app \<lparr>strategy = Some ''conf_1''\<rparr> []
       = (Inl bus_down, [CallImport ''conf_1.yml'', CallNotify ''boom''])"
  by (simp add: on_cmd_import_def Response_def app_doubles more_doubles is_Exception_def)

text \<open>
  C5, amended: if the strategy name is null, the import handler returns the default response
  (\<open>OK\<close>, empty message) and makes no application call (the state is untouched). If it is
  non-null, the handler calls the import operation on the name with \<open>.yml\<close> appended; when
  that returns, the response is the default one; when it raises an error derived from
  \<^verbatim>\<open>Exception\<close>, the handler first forwards the error's string description to \<^verbatim>\<open>notify\<close> and,
  once that call has returned, returns the response with status \<open>ERROR\<close> and that
  description as message.
\<close>

theorem import_handler_behaviour:
  "on_cmd_import hb_app \<lparr>strategy = None\<rparr> s = (Inr \<lparr>status = OK, msg = ''''\<rparr>, s)
   \<and> (import_command hb_app (n @ ''.yml'') s = (Inr (), sa)
        \<longrightarrow> on_cmd_import hb_app \<lparr>strategy = Some n\<rparr> s = (Inr \<lparr>status = OK, msg = ''''\<rparr>, sa))
   \<and> (import_command hb_app (n @ ''.yml'') s = (Inl e, sa) \<and> is_Exception e
       \<and> notify hb_app (str e) sa = (Inr (), sb)
        \<longrightarrow> on_cmd_import hb_app \<lparr>strategy = Some n\<rparr> s
              = (Inr \<lparr>status = ERROR, msg = str e\<rparr>, sb))"
  by (simp add: on_cmd_import_def Response_def)

theorem import_handler_behaviour_witness:
  "on_cmd_import import_fails_app \<lparr>strategy = None\<rparr> [] = (Inr \<lparr>status = OK, msg = ''''\<rparr>, [])
   \<and> on_cmd_import quiet_app \<lparr>strategy = Some ''conf_1''\<rparr> []
      = (Inr \<lparr>status = OK, msg = ''''\<rparr>, [CallImport ''conf_1.yml''])
   \<and> on_cmd_import import_fails_app \<lparr>strategy = Some ''conf_1''\<rparr> []
      = (Inr \<lparr>status = ERROR, msg = ''boom''\<rparr>, [CallImport ''conf_1.yml'', CallNotify ''boom''])"
proof -
  have ok: "import_command quiet_app (''conf_1'' @ ''.yml'') [] = (Inr (), [CallImport ''conf_1.yml''])"
    by (simp add: app_doubles)
  have bad: "import_command import_fails_app (''conf_1'' @ ''.yml'') [] = (Inl boom, [CallImport ''conf_1.yml''])"
    by (simp add: app_doubles)
  have caught: "is_Exception boom"
    by (simp add: is_Exception_def boom_def)
  have told: "notify import_fails_app (str boom) [CallImport ''conf_1.yml'']
      = (Inr (), [CallImport ''conf_1.yml'', CallNotify ''boom''])"
    by (simp add: app_doubles)
  have a: "on_cmd_import import_fails_app \<lparr>strategy = None\<rparr> [] = (Inr \<lparr>status = OK, msg = ''''\<rparr>, [])"
    using import_handler_behaviour [where hb_app = import_fails_app and s = "[]"] by blast
  have b: "on_cmd_import quiet_app \<lparr>strategy = Some ''conf_1''\<rparr> []
      = (Inr \<lparr>status = OK, msg = ''''\<rparr>, [CallImport ''conf_1.yml''])"
    using import_handler_behaviour [where hb_app = quiet_app and s = "[]" and n = "''conf_1''"
        and sa = "[CallImport ''conf_1.yml'']"] ok by blast
  have c: "on_cmd_import import_fails_app \<lparr>strategy = Some ''conf_1''\<rparr> []
      = (Inr \<lparr>status = ERROR, msg = ''boom''\<rparr>, [CallImport ''conf_1.yml'', CallNotify ''boom''])"
    using import_handler_behaviour [where hb_app = import_fails_app and s = "[]" and n = "''conf_1''"
        and e = boom and sa = "[CallImport ''conf_1.yml'']"
        and sb = "[CallImport ''conf_1.yml'', CallNotify ''boom'']"] bad caught told
    by (simp add: boom_def)
  from a b c show ?thesis by blast
qed

section \<open>The log sink\<close>

text \<open>
  C1, as the claim states it, fails: \<^verbatim>\<open>emit\<close> has no \<^verbatim>\<open>try\<close>. With a publisher that raises
  \<open>bus_down\<close>, \<^verbatim>\<open>emit\<close> raises \<open>bus_down\<close>.
\<close>

theorem emit_raises_counterexample:
  "emit plain_format 0 failing_publish a_record [] = (Inl bus_down, [])"
  by (simp add: emit_def log_doubles)

text \<open>
  C1, amended: \<^verbatim>\<open>emit\<close> formats the record, builds the Log Message from the formatted text,
  the wall-clock time and the record's level number, level name and logger name, publishes
  it and returns it. It contains no failure: an error raised while formatting leaves
  \<^verbatim>\<open>emit\<close> before anything is published, and an error raised while publishing leaves
  \<^verbatim>\<open>emit\<close> as well.
\<close>

theorem emit_behaviour:
  "(format log_record = Inl e \<longrightarrow> emit format t log_publish log_record p = (Inl e, p))
   \<and> (format log_record = Inr msg_str
       \<and> log_publish \<lparr>log_timestamp = t, log_msg = msg_str, level_no = levelno log_record,
                       level_name = levelname log_record, logger_name = name log_record\<rparr> p = (Inl e, pa)
        \<longrightarrow> emit format t log_publish log_record p = (Inl e, pa))
   \<and> (format log_record = Inr msg_str
       \<and> log_publish \<lparr>log_timestamp = t, log_msg = msg_str, level_no = levelno log_record,
                       level_name = levelname log_record, logger_name = name log_record\<rparr> p = (Inr (), pa)
        \<longrightarrow> emit format t log_publish log_record p
              = (Inr \<lparr>log_timestamp = t, log_msg = msg_str, level_no = levelno log_record,
                       level_name = levelname log_record, logger_name = name log_record\<rparr>, pa))"
  by (simp add: emit_def)

theorem emit_behaviour_witness:
  "emit failing_format 0 recording_publish a_record []
     = (Inl (Exc TypeError ''not all arguments converted during string formatting''), [])
   \<and> emit plain_format 0 failing_publish a_record [] = (Inl bus_down, [])
   \<and> emit plain_format 0 recording_publish a_record []
     = (Inr \<lparr>log_timestamp = 0, log_msg = ''hummingbot: INFO'', level_no = 20,
              level_name = ''INFO'', logger_name = ''hummingbot''\<rparr>,
        [\<lparr>log_timestamp = 0, log_msg = ''hummingbot: INFO'', level_no = 20,
              level_name = ''INFO'', logger_name = ''hummingbot''\<rparr>])"
proof -
  let ?m = "\<lparr>log_timestamp = 0, log_msg = ''hummingbot: INFO'', level_no = 20,
              level_name = ''INFO'', logger_name = ''hummingbot''\<rparr>"
  have f1: "failing_format a_record = Inl (Exc TypeError ''not all arguments converted during string formatting'')"
    by (simp add: log_doubles)
  have f2: "plain_format a_record = Inr ''hummingbot: INFO''"
    by (simp add: log_doubles)
  have m: "\<lparr>log_timestamp = 0, log_msg = ''hummingbot: INFO'', level_no = levelno a_record,
             level_name = levelname a_record, logger_name = name a_record\<rparr> = ?m"
    by (simp add: log_doubles)
  have p1: "failing_publish ?m [] = (Inl bus_down, [])"
    by (simp add: log_doubles)
  have p2: "recording_publish ?m [] = (Inr (), [?m])"
    by (simp add: log_doubles)
  have a: "emit failing_format 0 recording_publish a_record []
     = (Inl (Exc TypeError ''not all arguments converted during string formatting''), [])"
    using emit_behaviour [where format = failing_format and log_record = a_record and p = "[]"] f1
    by blast
  have b: "emit plain_format 0 failing_publish a_record [] = (Inl bus_down, [])"
    using emit_behaviour [where format = plain_format and log_record = a_record and p = "[]"
        and msg_str = "''hummingbot: INFO''" and t = 0 and log_publish = failing_publish
        and e = bus_down and pa = "[]"] f2 p1
    by (simp add: m)
  have c: "emit plain_format 0 recording_publish a_record [] = (Inr ?m, [?m])"
    using emit_behaviour [where format = plain_format and log_record = a_record and p = "[]"
        and msg_str = "''hummingbot: INFO''" and t = 0 and log_publish = recording_publish
        and pa = "[?m]"] f2 p2
    by (simp add: m)
  from a b c show ?thesis by blast
qed

section \<open>The event forwarder: label, payload, timestamp\<close>

text \<open>
  The dict display of the label table: looking a key up finds the last item with that
  key.
\<close>

lemma map_of_foldl_update:
  "map_of (foldl (\<lambda>d (k, v). AList.update k v d) acc items) = map_of acc ++ map_of (rev items)"
  by (induction items arbitrary: acc) (auto simp: update_conv' map_add_upd_left fun_eq_iff map_add_def split: option.splits)

lemma map_of_dict_display: "map_of (dict_display items) = map_of (rev items)"
  by (simp add: dict_display_def map_of_foldl_update)

lemma event_types_keys: "fst ` set (event_types val) = range val"
proof -
  have all: "(UNIV :: MarketEvent set) =
      {BuyOrderCreated, BuyOrderCompleted, SellOrderCreated, SellOrderCompleted, OrderFilled,
       OrderFailure, OrderCancelled, OrderExpired, FundingPaymentCompleted,
       RangePositionLiquidityAdded, RangePositionLiquidityRemoved, RangePositionUpdate,
       RangePositionUpdateFailure, RangePositionFeeCollected, RangePositionClosed}"
    by (auto intro: MarketEvent.exhaust)
  have "fst ` set (event_types val) = dom (map_of (event_types val))"
    by (simp add: dom_map_of_conv_image_fst)
  also have "\<dots> = val ` UNIV"
    unfolding all by (simp add: event_types_def map_of_dict_display dom_map_of_conv_image_fst) blast
  finally show ?thesis .
qed

lemma event_type_known:
  assumes "inj val"
  shows "map_of (event_types val) (val e) = Some (member_name e)"
  using assms by (cases e) (simp_all add: event_types_def map_of_dict_display inj_eq)

lemma event_type_unknown:
  assumes "tag \<notin> range val"
  shows "event_type_of val tag = ''Unknown''"
proof -
  have "tag \<noteq> val e" for e
    using assms by blast
  then show ?thesis
    by (simp add: event_type_of_def event_types_def map_of_dict_display)
qed

text \<open>
  On the main thread, when the payload converts to \<open>d\<close> and \<^verbatim>\<open>int\<close> accepts the timestamp,
  the whole effect of \<^verbatim>\<open>_send_mqtt_event\<close> is one call of \<^verbatim>\<open>publish\<close>.
\<close>

lemma send_on_main:
  assumes "current_thread rt = main_thread rt"
    and "event_data_of event = Inr d"
    and "pop_timestamp (now rt) d = (ts, rest)"
    and "py_int ts = Inr n"
  shows "send_mqtt_event rt event_tag pubsub event w =
     publish_on_main rt
       \<lparr>ev_timestamp = n, ev_type = event_type_of (member_value rt) event_tag, ev_data = rest\<rparr> w"
  using assms by (simp add: send_mqtt_event_def publish_on_main_def)

lemma pop_timestamp_present:
  "map_of d ''timestamp'' = Some v \<Longrightarrow>
   pop_timestamp clock d = (v, AList.delete ''timestamp'' d)"
  by (simp add: pop_timestamp_def dict_pop_def)

lemma pop_timestamp_absent:
  "map_of d ''timestamp'' = None \<Longrightarrow> pop_timestamp clock d = (PyFloat clock, d)"
  by (simp add: pop_timestamp_def dict_pop_def)

lemma timestamp_deleted: "''timestamp'' \<notin> fst ` set (AList.delete ''timestamp'' d)"
  using AList.delete_notin_dom [of "''timestamp''" d] by simp

lemma run_callbacks_append:
  "run_callbacks rt (xs @ ys) w = run_callbacks rt ys (run_callbacks rt xs w)"
  by (induction rt xs w rule: run_callbacks.induct) simp_all

lemma send_on_main_pending:
  "current_thread rt = main_thread rt \<Longrightarrow>
   pending (snd (send_mqtt_event rt event_tag pubsub event w)) = pending w"
  by (simp add: send_mqtt_event_def split: prod.splits sum.splits)

text \<open>
  C9: the identifiers of the label table are the values of the enumeration members the
  source names. For every identifier of the table the forwarder publishes a message whose
  type is the table's label for it, and that label is the name of the member; for every
  identifier outside the table the type is \<open>"Unknown"\<close>. The members' values are declared
  outside the source; that the label of a member's value is that member's name rests on
  distinct members having distinct values (\<open>inj\<close>), which holds of the members of a Python
  enumeration. The message is the one handed to \<^verbatim>\<open>publish\<close> on the main thread for an event
  whose payload converts and whose timestamp \<^verbatim>\<open>int\<close> accepts.
\<close>

theorem event_type_labels:
  "fst ` set (event_types (member_value rt)) = range (member_value rt)
   \<and> (inj (member_value rt)
        \<longrightarrow> map_of (event_types (member_value rt)) (member_value rt member)
            = Some (member_name member))
   \<and> (current_thread rt = main_thread rt \<and> event_data_of event = Inr d
       \<and> pop_timestamp (now rt) d = (ts, left) \<and> py_int ts = Inr n
        \<longrightarrow> (map_of (event_types (member_value rt)) event_tag = Some label
              \<longrightarrow> send_mqtt_event rt event_tag pubsub event w
                  = publish_on_main rt
                      \<lparr>ev_timestamp = n, ev_type = label, ev_data = left\<rparr> w)
          \<and> (inj (member_value rt)
              \<longrightarrow> send_mqtt_event rt (member_value rt member) pubsub event w
                  = publish_on_main rt
                      \<lparr>ev_timestamp = n, ev_type = member_name member, ev_data = left\<rparr> w)
          \<and> (event_tag \<notin> range (member_value rt)
              \<longrightarrow> send_mqtt_event rt event_tag pubsub event w
                  = publish_on_main rt
                      \<lparr>ev_timestamp = n, ev_type = ''Unknown'', ev_data = left\<rparr> w))"
proof -
  have known: "event_type_of (member_value rt) (member_value rt member) = member_name member"
    if "inj (member_value rt)"
    using event_type_known [OF that] by (simp add: event_type_of_def)
  have listed: "event_type_of (member_value rt) event_tag = label"
    if "map_of (event_types (member_value rt)) event_tag = Some label"
    using that by (simp add: event_type_of_def)
  have unknown: "event_type_of (member_value rt) event_tag = ''Unknown''"
    if "event_tag \<notin> range (member_value rt)"
    using that by (rule event_type_unknown)
  have sent: "send_mqtt_event rt tag pubsub event w
      = publish_on_main rt
          \<lparr>ev_timestamp = n, ev_type = event_type_of (member_value rt) tag, ev_data = left\<rparr> w"
    if "current_thread rt = main_thread rt" "event_data_of event = Inr d"
      "pop_timestamp (now rt) d = (ts, left)" "py_int ts = Inr n" for tag
    using that by (rule send_on_main)
  show ?thesis
    using event_types_keys [of "member_value rt"] event_type_known [of "member_value rt" member]
      known listed unknown sent [where tag = "member_value rt member"] sent [where tag = event_tag]
    by simp
qed

theorem event_type_labels_witness:
  "map_of (event_types known_values) 200 = Some ''BuyOrderCreated''
   \<and> map_of (event_types known_values) 305 = Some ''RangePositionClosed''
   \<and> send_mqtt_event on_main 106 0 (named_tuple [(''timestamp'', PyFloat 12.75)]) idle
     = (Inr (), \<lparr>pending = [],
                 bus = [(0, \<lparr>ev_timestamp = 12, ev_type = ''OrderCancelled'', ev_data = []\<rparr>)]\<rparr>)
   \<and> send_mqtt_event on_main 109 0 (named_tuple [(''timestamp'', PyFloat 12.75)]) idle
     = (Inr (), \<lparr>pending = [],
                 bus = [(0, \<lparr>ev_timestamp = 12, ev_type = ''Unknown'', ev_data = []\<rparr>)]\<rparr>)"
proof -
  let ?ev = "named_tuple [(''timestamp'', PyFloat 12.75)]"
  have one_to_one: "inj (member_value on_main)"
    by (rule injI) (simp add: on_main_def known_values_def split: MarketEvent.splits)
  have val: "member_value on_main = known_values"
    by (simp add: on_main_def)
  have outside: "109 \<notin> range (member_value on_main)"
    by (auto simp: on_main_def known_values_def split: MarketEvent.splits)
  have main: "current_thread on_main = main_thread on_main"
    by (simp add: on_main_def)
  have nt: "event_data_of ?ev = Inr [(''timestamp'', PyFloat 12.75)]"
    by (simp add: event_data_of_def named_tuple_def)
  have popped: "pop_timestamp (now on_main) [(''timestamp'', PyFloat 12.75)] = (PyFloat 12.75, [])"
    by (simp add: pop_timestamp_def dict_pop_def AList.delete_eq)
  have whole: "py_int (PyFloat 12.75) = Inr 12"
    by (simp add: trunc_def)
  have a: "map_of (event_types known_values) 200 = Some ''BuyOrderCreated''"
    using event_type_labels [where rt = on_main and member = BuyOrderCreated] one_to_one
    by (simp add: val known_values_def)
  have b: "map_of (event_types known_values) 305 = Some ''RangePositionClosed''"
    using event_type_labels [where rt = on_main and member = RangePositionClosed] one_to_one
    by (simp add: val known_values_def)
  have d: "send_mqtt_event on_main (member_value on_main OrderCancelled) 0 ?ev idle
      = publish_on_main on_main
          \<lparr>ev_timestamp = 12, ev_type = member_name OrderCancelled, ev_data = []\<rparr> idle"
    using event_type_labels [where rt = on_main and member = OrderCancelled and event = ?ev
        and d = "[(''timestamp'', PyFloat 12.75)]" and ts = "PyFloat 12.75" and left = "[]"
        and n = 12 and pubsub = 0 and w = idle] one_to_one main nt popped whole
    by blast
  have e: "send_mqtt_event on_main 109 0 ?ev idle
      = publish_on_main on_main \<lparr>ev_timestamp = 12, ev_type = ''Unknown'', ev_data = []\<rparr> idle"
    using event_type_labels [where rt = on_main and event = ?ev
        and d = "[(''timestamp'', PyFloat 12.75)]" and ts = "PyFloat 12.75" and left = "[]"
        and n = 12 and pubsub = 0 and w = idle and event_tag = 109] main nt popped whole outside
    by blast
  have d': "send_mqtt_event on_main 106 0 ?ev idle
      = (Inr (), \<lparr>pending = [],
                  bus = [(0, \<lparr>ev_timestamp = 12, ev_type = ''OrderCancelled'', ev_data = []\<rparr>)]\<rparr>)"
    using d by (simp add: publish_on_main_def on_main_def known_values_def recording_bus_def idle_def)
  have e': "send_mqtt_event on_main 109 0 ?ev idle
      = (Inr (), \<lparr>pending = [],
                  bus = [(0, \<lparr>ev_timestamp = 12, ev_type = ''Unknown'', ev_data = []\<rparr>)]\<rparr>)"
    using e by (simp add: publish_on_main_def on_main_def recording_bus_def idle_def)
  from a b d' e' show ?thesis
    by blast
qed




text \<open>
  C8, as the claim states it, fails for an event whose \<open>timestamp\<close> entry \<^verbatim>\<open>int\<close> rejects:
  \<^verbatim>\<open>int(timestamp)\<close> stands outside any \<^verbatim>\<open>try\<close>. The payload below is a dataclass instance
  whose \<open>timestamp\<close> field is \<^verbatim>\<open>None\<close>; the mapping contains the entry, \<^verbatim>\<open>int(None)\<close> raises a
  \<^verbatim>\<open>TypeError\<close>, the handler raises it and no message is published.
\<close>

theorem timestamp_rejected_counterexample:
  "event_data_of (dataclass_instance [(''amount'', PyInt 5), (''timestamp'', none_value)])
     = Inr [(''amount'', PyInt 5), (''timestamp'', none_value)]
   \<and> map_of [(''amount'', PyInt 5), (''timestamp'', none_value)] ''timestamp'' = Some none_value
   \<and> send_mqtt_event on_main 107 0
        (dataclass_instance [(''amount'', PyInt 5), (''timestamp'', none_value)]) idle
     = (Inl int_of_none, idle)"
  by (simp add: send_mqtt_event_def event_data_of_def pop_timestamp_def dict_pop_def
      dataclass_instance_def none_value_def on_main_def)

text \<open>
  C8, amended: for every event handled on the main thread whose payload converts to the
  mapping \<open>d\<close>: if \<open>d\<close> has a \<open>timestamp\<close> entry that \<^verbatim>\<open>int\<close> converts to \<open>n\<close>, the message
  published has timestamp \<open>n\<close> and data \<open>d\<close> without that entry, so the data no longer
  contains the key; if \<open>d\<close> has a \<open>timestamp\<close> entry that \<^verbatim>\<open>int\<close> rejects, the error of
  \<^verbatim>\<open>int\<close> leaves the handler and nothing is published; if \<open>d\<close> has no such entry, the
  message has the wall-clock time, cut to whole seconds by \<^verbatim>\<open>int\<close>, as timestamp and \<open>d\<close>
  as data.
\<close>

theorem timestamp_extraction:
  assumes "current_thread rt = main_thread rt"
    and "event_data_of event = Inr d"
  shows "(map_of d ''timestamp'' = Some v \<and> py_int v = Inr n
          \<longrightarrow> send_mqtt_event rt event_tag pubsub event w
               = publish_on_main rt
                   \<lparr>ev_timestamp = n, ev_type = event_type_of (member_value rt) event_tag,
                    ev_data = AList.delete ''timestamp'' d\<rparr> w
             \<and> ''timestamp'' \<notin> fst ` set (AList.delete ''timestamp'' d))
    \<and> (map_of d ''timestamp'' = Some v \<and> py_int v = Inl e
          \<longrightarrow> send_mqtt_event rt event_tag pubsub event w = (Inl e, w))
    \<and> (map_of d ''timestamp'' = None
          \<longrightarrow> send_mqtt_event rt event_tag pubsub event w
               = publish_on_main rt
                   \<lparr>ev_timestamp = trunc (now rt),
                    ev_type = event_type_of (member_value rt) event_tag, ev_data = d\<rparr> w)"
proof (intro conjI impI)
  assume "map_of d ''timestamp'' = Some v \<and> py_int v = Inr n"
  then show "send_mqtt_event rt event_tag pubsub event w
               = publish_on_main rt
                   \<lparr>ev_timestamp = n, ev_type = event_type_of (member_value rt) event_tag,
                    ev_data = AList.delete ''timestamp'' d\<rparr> w"
    using send_on_main [OF assms pop_timestamp_present] by blast
next
  show "''timestamp'' \<notin> fst ` set (AList.delete ''timestamp'' d)"
    by (rule timestamp_deleted)
next
  assume "map_of d ''timestamp'' = Some v \<and> py_int v = Inl e"
  then show "send_mqtt_event rt event_tag pubsub event w = (Inl e, w)"
    using assms by (simp add: send_mqtt_event_def pop_timestamp_present)
next
  assume "map_of d ''timestamp'' = None"
  then have "pop_timestamp (now rt) d = (PyFloat (now rt), d)"
    by (rule pop_timestamp_absent)
  from send_on_main [OF assms this]
  show "send_mqtt_event rt event_tag pubsub event w
               = publish_on_main rt
                   \<lparr>ev_timestamp = trunc (now rt),
                    ev_type = event_type_of (member_value rt) event_tag, ev_data = d\<rparr> w"
    by simp
qed

theorem timestamp_extraction_witness:
  "send_mqtt_event on_main 107 0
     (dataclass_instance [(''amount'', PyInt 5), (''timestamp'', PyInt 1000)]) idle
     = (Inr (), \<lparr>pending = [],
                 bus = [(0, \<lparr>ev_timestamp = 1000, ev_type = ''OrderFilled'',
                             ev_data = [(''amount'', PyInt 5)]\<rparr>)]\<rparr>)
   \<and> ''timestamp'' \<notin> fst ` set [(''amount'', PyInt 5)]
   \<and> send_mqtt_event on_main 107 0 (named_tuple [(''amount'', PyInt 5)]) idle
     = (Inr (), \<lparr>pending = [],
                 bus = [(0, \<lparr>ev_timestamp = 1700000000, ev_type = ''OrderFilled'',
                             ev_data = [(''amount'', PyInt 5)]\<rparr>)]\<rparr>)
   \<and> send_mqtt_event on_main 107 0 (named_tuple [(''timestamp'', none_value)]) idle
     = (Inl int_of_none, idle)"
proof -
  let ?with = "[(''amount'', PyInt 5), (''timestamp'', PyInt 1000)]"
  let ?without = "[(''amount'', PyInt 5)]"
  have main: "current_thread on_main = main_thread on_main"
    by (simp add: on_main_def)
  have one_to_one: "inj known_values"
    by (rule injI) (simp add: known_values_def split: MarketEvent.splits)
  have label: "event_type_of (member_value on_main) 107 = ''OrderFilled''"
    using event_type_known [OF one_to_one, of OrderFilled]
    by (simp add: event_type_of_def known_values_def on_main_def)
  have dc: "event_data_of (dataclass_instance ?with) = Inr ?with"
    by (simp add: event_data_of_def dataclass_instance_def)
  have nt: "event_data_of (named_tuple ?without) = Inr ?without"
    by (simp add: event_data_of_def named_tuple_def)
  have present: "map_of ?with ''timestamp'' = Some (PyInt 1000) \<and> py_int (PyInt 1000) = Inr 1000"
    by simp
  have absent: "map_of ?without ''timestamp'' = None"
    by simp
  have removed: "AList.delete ''timestamp'' ?with = ?without"
    by (simp add: AList.delete_eq)
  have a: "send_mqtt_event on_main 107 0 (dataclass_instance ?with) idle
      = (Inr (), \<lparr>pending = [],
                  bus = [(0, \<lparr>ev_timestamp = 1000, ev_type = ''OrderFilled'', ev_data = ?without\<rparr>)]\<rparr>)
     \<and> ''timestamp'' \<notin> fst ` set ?without"
    using timestamp_extraction [OF main dc, where v = "PyInt 1000" and n = 1000 and event_tag = 107
        and pubsub = 0 and w = idle] present
    by (simp add: removed label) (simp add: publish_on_main_def on_main_def recording_bus_def idle_def)
  have b: "send_mqtt_event on_main 107 0 (named_tuple ?without) idle
      = (Inr (), \<lparr>pending = [],
                  bus = [(0, \<lparr>ev_timestamp = 1700000000, ev_type = ''OrderFilled'', ev_data = ?without\<rparr>)]\<rparr>)"
    using timestamp_extraction [OF main nt, where event_tag = 107 and pubsub = 0 and w = idle] absent
    by (simp add: label) (simp add: publish_on_main_def on_main_def recording_bus_def idle_def trunc_def)
  have bad: "event_data_of (named_tuple [(''timestamp'', none_value)]) = Inr [(''timestamp'', none_value)]"
    by (simp add: event_data_of_def named_tuple_def)
  have rejected: "map_of [(''timestamp'', none_value)] ''timestamp'' = Some none_value
      \<and> py_int none_value = Inl int_of_none"
    by (simp add: none_value_def)
  have c: "send_mqtt_event on_main 107 0 (named_tuple [(''timestamp'', none_value)]) idle
      = (Inl int_of_none, idle)"
    using timestamp_extraction [OF main bad, where v = none_value and e = int_of_none
        and event_tag = 107 and pubsub = 0 and w = idle] rejected
    by simp
  from a b c show ?thesis
    by simp
qed

section \<open>The event forwarder: the thread hop\<close>

text \<open>
  C7: invoked on any thread other than the main thread, the handler hands the identical
  call to the owning context's loop and returns at once: it publishes nothing (the bus is
  untouched), whatever the event. When the loop takes its next turn, the call runs on the
  main thread after the callbacks scheduled before it, with exactly the effect of the same
  call made on the main thread at that moment; and the loop has then nothing pending, so
  the call runs once. For an event whose payload converts and whose timestamp \<^verbatim>\<open>int\<close>
  accepts, that effect is one call of \<^verbatim>\<open>publish\<close>, made by the main thread, with the message
  a same-context invocation builds: after the turn the bus is what that one call made of
  it, and a further turn of the loop leaves it as it is.
\<close>

theorem thread_hop:
  assumes "current_thread rt \<noteq> main_thread rt"
  shows "send_mqtt_event rt event_tag pubsub event w
           = (Inr (), w\<lparr>pending := pending w @ [(event_tag, pubsub, event)]\<rparr>)
    \<and> bus (snd (send_mqtt_event rt event_tag pubsub event w)) = bus w
    \<and> run_loop_once (rt\<lparr>now := later\<rparr>) (snd (send_mqtt_event rt event_tag pubsub event w))
        = snd (send_mqtt_event (rt\<lparr>now := later, current_thread := main_thread rt\<rparr>)
                 event_tag pubsub event (run_loop_once (rt\<lparr>now := later\<rparr>) w))
    \<and> pending (run_loop_once (rt\<lparr>now := later\<rparr>)
                 (snd (send_mqtt_event rt event_tag pubsub event w))) = []
    \<and> (event_data_of event = Inr d \<and> pop_timestamp later d = (ts, left) \<and> py_int ts = Inr n
         \<longrightarrow> run_loop_once (rt\<lparr>now := later\<rparr>)
               (snd (send_mqtt_event rt event_tag pubsub event w))
             = (run_loop_once (rt\<lparr>now := later\<rparr>) w)
                 \<lparr>bus := snd (publish rt (main_thread rt)
                                \<lparr>ev_timestamp = n,
                                 ev_type = event_type_of (member_value rt) event_tag,
                                 ev_data = left\<rparr>
                                (bus (run_loop_once (rt\<lparr>now := later\<rparr>) w)))\<rparr>)
    \<and> run_loop_once (rt\<lparr>now := even_later\<rparr>)
          (run_loop_once (rt\<lparr>now := later\<rparr>)
             (snd (send_mqtt_event rt event_tag pubsub event w)))
        = run_loop_once (rt\<lparr>now := later\<rparr>) (snd (send_mqtt_event rt event_tag pubsub event w))"
proof -
  let ?rt = "rt\<lparr>now := later\<rparr>"
  let ?main = "rt\<lparr>now := later, current_thread := main_thread rt\<rparr>"
  let ?after = "run_loop_once ?rt (snd (send_mqtt_event rt event_tag pubsub event w))"
  have hop: "send_mqtt_event rt event_tag pubsub event w
      = (Inr (), w\<lparr>pending := pending w @ [(event_tag, pubsub, event)]\<rparr>)"
    using assms by (simp add: send_mqtt_event_def)
  have drained: "pending (run_callbacks r cs v) = pending v" for r :: "'a runtime" and cs v
    by (induction r cs v rule: run_callbacks.induct) (simp_all add: send_on_main_pending)
  have turn: "run_loop_once ?rt (w\<lparr>pending := pending w @ [(event_tag, pubsub, event)]\<rparr>)
      = snd (send_mqtt_event ?main event_tag pubsub event (run_loop_once ?rt w))"
    by (simp add: run_loop_once_def run_callbacks_append)
  have empty: "pending (run_loop_once r v) = []" for r :: "'a runtime" and v
    by (simp add: run_loop_once_def drained)
  have quiet: "bus (snd (send_mqtt_event rt event_tag pubsub event w)) = bus w"
    by (simp add: hop)
  have once: "?after = snd (send_mqtt_event ?main event_tag pubsub event (run_loop_once ?rt w))"
    by (simp add: hop turn)
  have published: "?after
      = (run_loop_once ?rt w)
          \<lparr>bus := snd (publish rt (main_thread rt)
                         \<lparr>ev_timestamp = n, ev_type = event_type_of (member_value rt) event_tag,
                          ev_data = left\<rparr>
                         (bus (run_loop_once ?rt w)))\<rparr>"
    if "event_data_of event = Inr d" "pop_timestamp later d = (ts, left)" "py_int ts = Inr n"
  proof -
    have "send_mqtt_event ?main event_tag pubsub event (run_loop_once ?rt w)
        = publish_on_main ?main
            \<lparr>ev_timestamp = n, ev_type = event_type_of (member_value ?main) event_tag,
             ev_data = left\<rparr> (run_loop_once ?rt w)"
      by (rule send_on_main [where d = d and ts = ts]) (simp_all add: that)
    then show ?thesis
      by (simp add: once publish_on_main_def split: prod.splits)
  qed
  have idle_again: "run_loop_once r v = v" if "pending v = []" for r :: "'a runtime" and v
    using that by (simp add: run_loop_once_def)
  have again: "run_loop_once (rt\<lparr>now := even_later\<rparr>) ?after = ?after"
    by (rule idle_again) (rule empty)
  have drained_after: "pending ?after = []"
    by (rule empty)
  from hop quiet once drained_after published again show ?thesis
    by blast
qed

theorem thread_hop_witness:
  "send_mqtt_event off_main 107 0 (dataclass_instance [(''amount'', PyInt 5), (''timestamp'', PyInt 1000)]) idle
     = (Inr (), \<lparr>pending = [(107, 0, dataclass_instance [(''amount'', PyInt 5), (''timestamp'', PyInt 1000)])],
                 bus = []\<rparr>)
   \<and> run_loop_once (off_main\<lparr>now := 1700000060\<rparr>)
        (snd (send_mqtt_event off_main 107 0
                (dataclass_instance [(''amount'', PyInt 5), (''timestamp'', PyInt 1000)]) idle))
     = snd (send_mqtt_event (on_main\<lparr>now := 1700000060\<rparr>) 107 0
              (dataclass_instance [(''amount'', PyInt 5), (''timestamp'', PyInt 1000)]) idle)
   \<and> run_loop_once (off_main\<lparr>now := 1700000060\<rparr>)
        (snd (send_mqtt_event off_main 107 0
                (dataclass_instance [(''amount'', PyInt 5), (''timestamp'', PyInt 1000)]) idle))
     = \<lparr>pending = [],
        bus = [(0, \<lparr>ev_timestamp = 1000, ev_type = ''OrderFilled'',
                    ev_data = [(''amount'', PyInt 5)]\<rparr>)]\<rparr>
   \<and> run_loop_once (off_main\<lparr>now := 1700000120\<rparr>)
        (run_loop_once (off_main\<lparr>now := 1700000060\<rparr>)
           (snd (send_mqtt_event off_main 107 0
                   (dataclass_instance [(''amount'', PyInt 5), (''timestamp'', PyInt 1000)]) idle)))
     = \<lparr>pending = [],
        bus = [(0, \<lparr>ev_timestamp = 1000, ev_type = ''OrderFilled'',
                    ev_data = [(''amount'', PyInt 5)]\<rparr>)]\<rparr>"
proof -
  let ?with = "[(''amount'', PyInt 5), (''timestamp'', PyInt 1000)]"
  let ?ev = "dataclass_instance ?with"
  let ?later = "off_main\<lparr>now := 1700000060\<rparr>"
  let ?done = "\<lparr>pending = [],
        bus = [(0::nat, \<lparr>ev_timestamp = 1000, ev_type = ''OrderFilled'',
                    ev_data = [(''amount'', PyInt 5)]\<rparr>)]\<rparr>"
  have off: "current_thread off_main \<noteq> main_thread off_main"
    by (simp add: off_main_def on_main_def)
  have main: "off_main\<lparr>now := 1700000060, current_thread := main_thread off_main\<rparr>
      = on_main\<lparr>now := 1700000060\<rparr>"
    by (simp add: off_main_def on_main_def)
  have idle_turn: "run_loop_once ?later idle = idle"
    by (simp add: run_loop_once_def idle_def)
  have queued: "idle\<lparr>pending := pending idle @ [(107, 0, ?ev)]\<rparr> = \<lparr>pending = [(107, 0, ?ev)], bus = []\<rparr>"
    by (simp add: idle_def)
  have one_to_one: "inj known_values"
    by (rule injI) (simp add: known_values_def split: MarketEvent.splits)
  have label: "event_type_of (member_value off_main) 107 = ''OrderFilled''"
    using event_type_known [OF one_to_one, of OrderFilled]
    by (simp add: event_type_of_def known_values_def off_main_def on_main_def)
  have converts: "event_data_of ?ev = Inr ?with"
    by (simp add: event_data_of_def dataclass_instance_def)
  have popped: "pop_timestamp 1700000060 ?with = (PyInt 1000, [(''amount'', PyInt 5)])"
    by (simp add: pop_timestamp_def dict_pop_def AList.delete_eq)
  have accepted: "py_int (PyInt 1000) = Inr 1000"
    by simp
  have sent: "idle\<lparr>bus := snd (publish off_main (main_thread off_main)
                               \<lparr>ev_timestamp = 1000, ev_type = ''OrderFilled'',
                                ev_data = [(''amount'', PyInt 5)]\<rparr> (bus idle))\<rparr> = ?done"
    by (simp add: off_main_def on_main_def recording_bus_def idle_def)
  have a: "send_mqtt_event off_main 107 0 ?ev idle
      = (Inr (), idle\<lparr>pending := pending idle @ [(107, 0, ?ev)]\<rparr>)"
    using thread_hop [OF off] by blast
  have b: "run_loop_once ?later (snd (send_mqtt_event off_main 107 0 ?ev idle))
      = snd (send_mqtt_event (off_main\<lparr>now := 1700000060, current_thread := main_thread off_main\<rparr>)
               107 0 ?ev (run_loop_once ?later idle))"
    using thread_hop [OF off] by blast
  have c: "run_loop_once ?later (snd (send_mqtt_event off_main 107 0 ?ev idle))
      = (run_loop_once ?later idle)
          \<lparr>bus := snd (publish off_main (main_thread off_main)
                         \<lparr>ev_timestamp = 1000, ev_type = event_type_of (member_value off_main) 107,
                          ev_data = [(''amount'', PyInt 5)]\<rparr>
                         (bus (run_loop_once ?later idle)))\<rparr>"
    using thread_hop [OF off, where event = ?ev and d = ?with and later = 1700000060
        and ts = "PyInt 1000" and left = "[(''amount'', PyInt 5)]" and n = 1000
        and event_tag = 107 and pubsub = 0 and w = idle] converts popped accepted
    by blast
  have d: "run_loop_once (off_main\<lparr>now := 1700000120\<rparr>)
        (run_loop_once ?later (snd (send_mqtt_event off_main 107 0 ?ev idle)))
      = run_loop_once ?later (snd (send_mqtt_event off_main 107 0 ?ev idle))"
    using thread_hop [OF off, where event = ?ev and later = 1700000060 and even_later = 1700000120
        and event_tag = 107 and pubsub = 0 and w = idle]
    by blast
  have a': "send_mqtt_event off_main 107 0 ?ev idle
      = (Inr (), \<lparr>pending = [(107, 0, ?ev)], bus = []\<rparr>)"
    using a by (simp add: queued)
  have b': "run_loop_once ?later (snd (send_mqtt_event off_main 107 0 ?ev idle))
      = snd (send_mqtt_event (on_main\<lparr>now := 1700000060\<rparr>) 107 0 ?ev idle)"
    using b by (simp add: main idle_turn)
  have c': "run_loop_once ?later (snd (send_mqtt_event off_main 107 0 ?ev idle)) = ?done"
    using c by (simp add: idle_turn label sent)
  have d': "run_loop_once (off_main\<lparr>now := 1700000120\<rparr>)
        (run_loop_once ?later (snd (send_mqtt_event off_main 107 0 ?ev idle))) = ?done"
    using d by (simp add: c')
  from a' b' c' d' show ?thesis
    by simp
qed

section \<open>Construction of the event forwarder\<close>

text \<open>
  C10: constructing the forwarder on any thread other than the main thread raises an
  \<^verbatim>\<open>EnvironmentError\<close> and leaves the state of every collaborator as it was: no publisher is
  created, no listener added. If the construction returns a forwarder, it ran on the main
  thread.
\<close>

theorem init_main_thread_only:
  "(current \<noteq> main
      \<longrightarrow> MQTTEventForwarder_init current main env s
          = (Inl (Exc EnvironmentError
                    ''MQTTEventForwarder can only be initialized from the main thread.''), s))
   \<and> (fst (MQTTEventForwarder_init current main env s) = Inr self \<longrightarrow> current = main)"
  by (auto simp: MQTTEventForwarder_init_def)

theorem init_main_thread_only_witness:
  "MQTTEventForwarder_init 7 0 recording_env []
     = (Inl (Exc EnvironmentError
               ''MQTTEventForwarder can only be initialized from the main thread.''), [])
   \<and> topic (projr (fst (MQTTEventForwarder_init 0 0 recording_env []))) = ''hbot/bot1/events''
   \<and> length (snd (MQTTEventForwarder_init 0 0 recording_env [])) = 31
   \<and> hd (snd (MQTTEventForwarder_init 0 0 recording_env [])) = CreatePublisher ''hbot/bot1/events''"
proof -
  have a: "MQTTEventForwarder_init 7 0 recording_env []
     = (Inl (Exc EnvironmentError
               ''MQTTEventForwarder can only be initialized from the main thread.''), [])"
    using init_main_thread_only [where current = 7 and main = 0 and env = recording_env and s = "[]"]
    by simp
  have t: "replace ''$UID'' ''bot1'' EVENT_URI = ''hbot/bot1/events''"
    by (simp add: EVENT_URI_def)
  have b: "topic (projr (fst (MQTTEventForwarder_init 0 0 recording_env []))) = ''hbot/bot1/events''
   \<and> length (snd (MQTTEventForwarder_init 0 0 recording_env [])) = 31
   \<and> hd (snd (MQTTEventForwarder_init 0 0 recording_env [])) = CreatePublisher ''hbot/bot1/events''"
    by (simp add: MQTTEventForwarder_init_def t recording_env_def start_event_listener_def
        the_market_event_pairs_def Let_def)
  from a b show ?thesis
    by blast
qed

end
